theory Spec2Isabelle
  imports Complex_Main "HOL-Library.Sublist"
begin

section \<open>Viewer client of the HVAC-Vibe gateway\<close>

text \<open>
  The development embeds the three browser scripts of the gateway's viewer
  (\<^verbatim>\<open>app.js\<close>, \<^verbatim>\<open>dashboard.js\<close>, \<^verbatim>\<open>setup.js\<close>) as HOL functions.
  JavaScript strings are \<^typ>\<open>string\<close>; a character outside ASCII is written as its
  UTF-8 bytes. JavaScript numbers are idealised as rationals (every finite double is
  one); \<^verbatim>\<open>Math.round\<close> rounds to the nearest integer with ties upwards. Where a
  property depends on the range of doubles, the range is written out.
\<close>

subsection \<open>Numbers and their decimal text\<close>

text \<open>\<^verbatim>\<open>Math.round(x)\<close>: the nearest integer, a tie going to the larger one.\<close>

definition js_round :: "rat \<Rightarrow> int" where
  "js_round x = \<lfloor>x + 1 / 2\<rfloor>"

definition digit_char :: "nat \<Rightarrow> char" where
  "digit_char n = ''0123456789'' ! n"

fun nat_str :: "nat \<Rightarrow> string" where
  "nat_str n = (if n < 10 then [digit_char n] else nat_str (n div 10) @ [digit_char (n mod 10)])"

declare nat_str.simps [simp del]

text \<open>
  \<^verbatim>\<open>x.toFixed(f)\<close> for \<open>|x| < 10^21\<close>: the sign, then the digits of the integer nearest
  to \<open>|x| * 10^f\<close> (the larger one at a tie), padded with zeros to \<open>f + 1\<close> digits, with
  the point before the last \<open>f\<close> digits.
\<close>

definition toFixed :: "nat \<Rightarrow> rat \<Rightarrow> string" where
  "toFixed f x =
     (let n = nat \<lfloor>\<bar>x\<bar> * 10 ^ f + 1 / 2\<rfloor>;
          ds = nat_str n;
          m = replicate (Suc f - length ds) CHR ''0'' @ ds;
          k = length m - f
      in (if x < 0 then ''-'' else [])
         @ take k m @ (if f = 0 then [] else CHR ''.'' # drop k m))"

subsection \<open>dashboard.js: the data of a sensor update and the chart's geometry\<close>

text \<open>
  The \<^verbatim>\<open>data\<close> object of a \<^verbatim>\<open>sensor_update\<close> message, typed by the protocol's
  schema: six numbers, two booleans and the history as pairs \<open>(minute, rms)\<close>.
\<close>

record sensor_data =
  vib_rms :: rat
  vib_peak :: rat
  temp :: rat
  humidity :: rat
  alarm :: bool
  connected :: bool
  battery :: rat
  rssi :: rat
  history :: "(rat \<times> rat) list"

datatype js_error = TypeError

definition MINUTES :: int where "MINUTES = 1440"

definition PAD_T :: int where "PAD_T = 20"
definition PAD_B :: int where "PAD_B = 18"
definition PAD_L :: int where "PAD_L = 6"
definition PAD_R :: int where "PAD_R = 8"

text \<open>\<^verbatim>\<open>pw\<close> and \<open>ph\<close> of \<^verbatim>\<open>renderChart\<close>; \<^verbatim>\<open>px\<close> is \<open>PAD_L\<close> and \<^verbatim>\<open>py\<close> is \<open>PAD_T\<close>.\<close>

definition plot_w :: "int \<Rightarrow> int" where
  "plot_w cw = cw - PAD_L - PAD_R"

definition plot_h :: "int \<Rightarrow> int" where
  "plot_h ch = ch - PAD_T - PAD_B"

text \<open>\<^verbatim>\<open>px + Math.round(min * pw / (MINUTES - 1))\<close>, used for labels, the NOW line and the points.\<close>

definition minute_x :: "int \<Rightarrow> rat \<Rightarrow> int" where
  "minute_x pw m = PAD_L + js_round (m * of_int pw / of_int (MINUTES - 1))"

text \<open>\<^verbatim>\<open>py + ph - Math.round(ph * v / yMax)\<close>, used for the grid, the alarm line and the points.\<close>

definition value_y :: "int \<Rightarrow> rat \<Rightarrow> rat \<Rightarrow> int" where
  "value_y ph yMax v = PAD_T + ph - js_round (of_int ph * v / yMax)"

text \<open>\<^verbatim>\<open>Math.max(py, Math.min(py + ph, y))\<close>.\<close>

definition clamp_y :: "int \<Rightarrow> int \<Rightarrow> int" where
  "clamp_y ph y = max PAD_T (min (PAD_T + ph) y)"

definition computeYMax :: "rat list \<Rightarrow> rat" where
  "computeYMax values =
     (let mx = (case values of [] \<Rightarrow> 0 | v # vs \<Rightarrow> fold max vs v);
          raw = max 1 (mx * (115 / 100))
      in of_int \<lceil>raw * 4\<rceil> / 4)"

text \<open>The intermediate \<^verbatim>\<open>raw\<close> of \<^verbatim>\<open>computeYMax\<close>, named for the proofs.\<close>

definition raw_max :: "rat list \<Rightarrow> rat" where
  "raw_max values = max 1 ((case values of [] \<Rightarrow> 0 | v # vs \<Rightarrow> fold max vs v) * (115 / 100))"

definition thresh :: rat where "thresh = 6 / 10"

definition chart_points :: "int \<Rightarrow> int \<Rightarrow> rat \<Rightarrow> (rat \<times> rat) list \<Rightarrow> (int \<times> int) list" where
  "chart_points pw ph yMax hist =
     map (\<lambda>(m, rms). (minute_x pw m, clamp_y ph (value_y ph yMax rms))) hist"

subsection \<open>The page and the state of the scripts\<close>

text \<open>
  An element carries what the scripts write: its text, its markup, its class list and
  the style properties set on it. \<^verbatim>\<open>document.getElementById(id)\<close> is \<open>byId doc id\<close>,
  with \<open>None\<close> for \<^verbatim>\<open>null\<close>. The page's markup is not part of the scripts, so which
  elements exist is left open. Two lookups go by selector rather than by id and have
  fields of their own: the first \<^verbatim>\<open>.tile-value\<close> inside \<^verbatim>\<open>#tile-rms\<close>, and the
  \<^verbatim>\<open>.signal-bars .bar\<close> elements in document order.
\<close>

record element =
  textContent :: string
  innerHTML :: string
  classList :: "string list"
  style :: "string \<rightharpoonup> string"

record document =
  byId :: "string \<rightharpoonup> element"
  tile_value :: "element option"
  signal_bars :: "element list"

text \<open>
  A statement either completes with a new state or throws with the state reached at
  the throw.
\<close>

type_synonym 's outcome = "js_error \<times> 's + 's"

definition and_then :: "'s outcome \<Rightarrow> ('s \<Rightarrow> 's outcome) \<Rightarrow> 's outcome" where
  "and_then r f = (case r of Inl e \<Rightarrow> Inl e | Inr s \<Rightarrow> f s)"

definition final :: "'s outcome \<Rightarrow> 's" where
  "final r = (case r of Inl (e, s) \<Rightarrow> s | Inr s \<Rightarrow> s)"

definition raised :: "'s outcome \<Rightarrow> bool" where
  "raised r = (case r of Inl _ \<Rightarrow> True | Inr _ \<Rightarrow> False)"

definition class_add :: "string \<Rightarrow> element \<Rightarrow> element" where
  "class_add c el =
     el\<lparr>classList := (if c \<in> set (classList el) then classList el else classList el @ [c])\<rparr>"

definition class_remove :: "string \<Rightarrow> element \<Rightarrow> element" where
  "class_remove c el = el\<lparr>classList := removeAll c (classList el)\<rparr>"

definition class_toggle :: "string \<Rightarrow> bool \<Rightarrow> element \<Rightarrow> element" where
  "class_toggle c force el = (if force then class_add c el else class_remove c el)"

definition set_style :: "string \<Rightarrow> string \<Rightarrow> element \<Rightarrow> element" where
  "set_style prop v el = el\<lparr>style := (style el)(prop \<mapsto> v)\<rparr>"

text \<open>A null-checked write (\<^verbatim>\<open>el && ...\<close>, \<^verbatim>\<open>if (el) ...\<close>) and an unchecked one.\<close>

definition on_elem :: "string \<Rightarrow> (element \<Rightarrow> element) \<Rightarrow> document \<Rightarrow> document" where
  "on_elem i f d =
     (case byId d i of None \<Rightarrow> d | Some el \<Rightarrow> d\<lparr>byId := (byId d)(i \<mapsto> f el)\<rparr>)"

definition must_elem :: "string \<Rightarrow> (element \<Rightarrow> element) \<Rightarrow> document \<Rightarrow> document outcome" where
  "must_elem i f d =
     (case byId d i of None \<Rightarrow> Inl (TypeError, d)
      | Some el \<Rightarrow> Inr (d\<lparr>byId := (byId d)(i \<mapsto> f el)\<rparr>))"

datatype ready_state = CONNECTING | OPEN | CLOSING | CLOSED

datatype view = MainView | SetupView

datatype kbd_mode = Lower | Upper | Num

text \<open>The command objects of the viewer protocol; \<open>None\<close> is a \<^verbatim>\<open>null\<close> ssid.\<close>

datatype command =
    Wifi_scan
  | Wifi_connect "string option" string
  | Ble_scan
  | Ble_pair string string
  | Ble_unpair string
  | Get_status

datatype ctx_op =
    ClearRect rat rat rat rat
  | FillRect rat rat rat rat
  | FillStyle string
  | StrokeStyle string
  | Font string
  | LineWidth rat
  | SetLineDash "rat list"
  | FillText string rat rat
  | BeginPath
  | ClosePath
  | MoveTo rat rat
  | LineTo rat rat
  | Arc rat rat rat
  | Stroke
  | Fill

text \<open>
  What the browser supplies: the text of a number in a template literal, the width
  \<^verbatim>\<open>ctx.measureText(s).width\<close>, and the date and time of \<^verbatim>\<open>new Date()\<close>.
\<close>

record host =
  num_text :: "rat \<Rightarrow> string"
  text_width :: "string \<Rightarrow> rat"
  local_date :: string
  time_text :: string
  now_hours :: int
  now_minutes :: int

text \<open>
  The variables of the three scripts, the page, the drawing calls made on the canvas
  context and the messages handed to \<^verbatim>\<open>ws.send\<close>, oldest first. \<open>ws = None\<close> is the
  \<^verbatim>\<open>null\<close> socket; \<open>chartW = 0\<close> and \<open>chartH = 0\<close> also stand for \<^verbatim>\<open>undefined\<close>,
  which the script tests in the same way.
\<close>

record world =
  page :: document
  canvas :: "ctx_op list"
  ws :: "ready_state option"
  currentView :: view
  outbox :: "command list"
  has_ctx :: bool
  chartW :: int
  chartH :: int
  sensorData :: "sensor_data option"
  selectedSSID :: "string option"
  kbdText :: string
  kbdMode :: kbd_mode

definition on_page :: "(document \<Rightarrow> document) \<Rightarrow> world \<Rightarrow> world" where
  "on_page f w = w\<lparr>page := f (page w)\<rparr>"

definition try_page :: "(document \<Rightarrow> document outcome) \<Rightarrow> world \<Rightarrow> world outcome" where
  "try_page f w =
     (case f (page w) of Inl (e, d) \<Rightarrow> Inl (e, w\<lparr>page := d\<rparr>) | Inr d \<Rightarrow> Inr (w\<lparr>page := d\<rparr>))"

subsection \<open>app.js\<close>

definition send :: "command \<Rightarrow> world \<Rightarrow> world" where
  "send obj w = (if ws w = Some OPEN then w\<lparr>outbox := outbox w @ [obj]\<rparr> else w)"

definition showMain :: "world \<Rightarrow> world outcome" where
  "showMain w =
     and_then (try_page (must_elem ''view-main'' (class_add ''active'')) (w\<lparr>currentView := MainView\<rparr>))
       (try_page (must_elem ''view-setup'' (class_remove ''active'')))"

definition showSetup :: "world \<Rightarrow> world outcome" where
  "showSetup w =
     and_then (try_page (must_elem ''view-setup'' (class_add ''active'')) (w\<lparr>currentView := SetupView\<rparr>))
       (\<lambda>w1. and_then (try_page (must_elem ''view-main'' (class_remove ''active'')) w1)
          (\<lambda>w2. Inr (send Get_status w2)))"

text \<open>
  What \<^verbatim>\<open>showMain\<close> and \<^verbatim>\<open>showSetup\<close> leave on the page: the class \<^verbatim>\<open>active\<close> is
  added to the view shown and then removed from the other one. Without the element of
  the view shown the first write throws and nothing is written.
\<close>

definition switch_active :: "string \<Rightarrow> string \<Rightarrow> document \<Rightarrow> document" where
  "switch_active shown other d =
     (if byId d shown = None then d
      else on_elem other (class_remove ''active'') (on_elem shown (class_add ''active'') d))"

text \<open>
  A received message with its \<^verbatim>\<open>type\<close>. The listeners registered with \<^verbatim>\<open>App.on\<close> are a
  parameter: for each type, the handlers in the order of registration. \<^verbatim>\<open>forEach\<close> stops
  at the first handler that throws. A type that names an inherited member of the
  script's \<^verbatim>\<open>listeners\<close> object, such as \<^verbatim>\<open>constructor\<close>, is outside this table.
\<close>

record 'd message =
  mtype :: string
  mdata :: 'd

fun forEach :: "('s \<Rightarrow> 's outcome) list \<Rightarrow> 's \<Rightarrow> 's outcome" where
  "forEach [] s = Inr s"
| "forEach (f # fs) s = and_then (f s) (forEach fs)"

definition dispatch ::
  "(string \<Rightarrow> ('d message \<Rightarrow> world \<Rightarrow> world outcome) list) \<Rightarrow> 'd message \<Rightarrow> world \<Rightarrow> world outcome" where
  "dispatch listeners msg w =
     (if mtype msg = ''toggle_view''
      then (if currentView w = MainView then showSetup w else showMain w)
      else and_then (forEach (map (\<lambda>fn. fn msg) (listeners (mtype msg))) w)
             (forEach (map (\<lambda>fn. fn msg) (listeners ''*''))))"

definition clockTick :: "host \<Rightarrow> world \<Rightarrow> world" where
  "clockTick h w = on_page (on_elem ''clock'' (\<lambda>el. el\<lparr>textContent := take 8 (time_text h)\<rparr>)) w"

definition connect :: "world \<Rightarrow> world" where
  "connect w = w\<lparr>ws := Some CONNECTING\<rparr>"

definition onopen :: "host \<Rightarrow> world \<Rightarrow> world" where
  "onopen h w = clockTick h (w\<lparr>ws := Some OPEN\<rparr>)"

definition onclose :: "world \<Rightarrow> world" where
  "onclose w = w\<lparr>ws := Some CLOSED\<rparr>"

subsection \<open>dashboard.js: tiles\<close>

definition setText :: "string \<Rightarrow> string \<Rightarrow> document \<Rightarrow> document" where
  "setText i val d = on_elem i (\<lambda>el. el\<lparr>textContent := val\<rparr>) d"

definition rssiToBars :: "rat \<Rightarrow> nat" where
  "rssiToBars r =
     (if r \<ge> - 60 then 4 else if r \<ge> - 70 then 3 else if r \<ge> - 80 then 2
      else if r \<ge> - 90 then 1 else 0)"

text \<open>
  \<^verbatim>\<open>document.getElementById('tile-rms').querySelector('.tile-value').style.color = c\<close>:
  neither lookup is null-checked.
\<close>

definition tile_colour :: "string \<Rightarrow> document \<Rightarrow> document outcome" where
  "tile_colour c d =
     (case byId d ''tile-rms'' of
        None \<Rightarrow> Inl (TypeError, d)
      | Some tile \<Rightarrow>
          (case tile_value d of
             None \<Rightarrow> Inl (TypeError, d)
           | Some tv \<Rightarrow> Inr (d\<lparr>tile_value := Some (set_style ''color'' c tv)\<rparr>)))"

definition level_colour :: "rat \<Rightarrow> string" where
  "level_colour pct =
     (if pct > 50 then ''var(--green)'' else if pct > 20 then ''var(--yellow)'' else ''var(--red)'')"

definition updateYAxis :: "(rat \<times> rat) list \<Rightarrow> document \<Rightarrow> document" where
  "updateYAxis hist d =
     (let yMax = computeYMax (map snd hist)
      in on_elem ''chart-yaxis''
           (\<lambda>el. el\<lparr>innerHTML :=
                concat (map (\<lambda>i. ''<span>'' @ toFixed 2 (yMax * of_int i / 4) @ ''</span>'')
                          [4, 3, 2, 1, 0 :: int])\<rparr>) d)"

text \<open>The sections of \<^verbatim>\<open>updateTiles\<close>, in the order and under the names of the source.\<close>

definition value_tiles :: "sensor_data \<Rightarrow> document \<Rightarrow> document" where
  "value_tiles d doc =
     setText ''val-hum'' (toFixed 1 (humidity d))
       (setText ''val-temp'' (toFixed 1 (temp d))
         (setText ''val-peak'' (toFixed 2 (vib_peak d))
           (setText ''val-rms'' (toFixed 3 (vib_rms d)) doc)))"

definition alarm_tiles :: "sensor_data \<Rightarrow> document \<Rightarrow> document outcome" where
  "alarm_tiles d doc =
     (if alarm d
      then tile_colour ''var(--red)''
             (on_elem ''clock'' (class_add ''hidden'')
               (on_elem ''alarm-badge'' (class_remove ''hidden'') doc))
      else tile_colour ''var(--accent)''
             (on_elem ''clock'' (class_remove ''hidden'')
               (on_elem ''alarm-badge'' (class_add ''hidden'') doc)))"

definition connection_tiles :: "sensor_data \<Rightarrow> document \<Rightarrow> document" where
  "connection_tiles d doc =
     (if connected d
      then on_elem ''conn-label'' (set_style ''color'' ''var(--green)'')
             (on_elem ''conn-label'' (\<lambda>el. el\<lparr>textContent := ''Connected''\<rparr>)
               (on_elem ''conn-dot'' (\<lambda>el. el\<lparr>classList := [''conn-dot'', ''connected'']\<rparr>) doc))
      else on_elem ''conn-label'' (set_style ''color'' ''var(--red)'')
             (on_elem ''conn-label'' (\<lambda>el. el\<lparr>textContent := ''No Signal''\<rparr>)
               (on_elem ''conn-dot'' (\<lambda>el. el\<lparr>classList := [''conn-dot'', ''disconnected'']\<rparr>) doc)))"

definition signal_tiles :: "host \<Rightarrow> sensor_data \<Rightarrow> document \<Rightarrow> document" where
  "signal_tiles h d doc =
     (let bars = rssiToBars (rssi d)
      in setText ''rssi-val'' (num_text h (rssi d) @ ''dBm'')
           (doc\<lparr>signal_bars :=
                  map (\<lambda>(i, el). class_toggle ''on'' (i < bars) el)
                    (enumerate 0 (signal_bars doc))\<rparr>))"

definition battery_tiles :: "host \<Rightarrow> sensor_data \<Rightarrow> document \<Rightarrow> document" where
  "battery_tiles h d doc =
     (let pct = battery d
      in on_elem ''bat-pct''
           (\<lambda>el. set_style ''color'' (level_colour pct) (el\<lparr>textContent := num_text h pct @ ''%''\<rparr>))
           (on_elem ''bat-fill''
              (\<lambda>el. set_style ''background'' (level_colour pct)
                      (set_style ''width'' (num_text h pct @ ''%'') el))
              doc))"

definition updateTiles :: "host \<Rightarrow> sensor_data \<Rightarrow> document \<Rightarrow> document outcome" where
  "updateTiles h d doc =
     and_then (alarm_tiles d (value_tiles d doc))
       (\<lambda>doc5. Inr (updateYAxis (history d)
                      (battery_tiles h d (signal_tiles h d (connection_tiles d doc5)))))"

subsection \<open>dashboard.js: chart\<close>

definition em_dash :: string where
  "em_dash = [CHR 0xE2, CHR 0x80, CHR 0x94]"

definition timeLabels :: "(rat \<times> string) list" where
  "timeLabels = [(0, ''00:00''), (360, ''06:00''), (720, ''12:00''), (1080, ''18:00''), (1439, ''24:00'')]"

definition title_ops :: "host \<Rightarrow> ctx_op list" where
  "title_ops h =
     [FillStyle ''#64707d'', Font ''10px Courier New'',
      FillText (''VIB RMS '' @ em_dash @ '' '' @ local_date h) (of_int (PAD_L + 4)) 12]"

definition grid_ops :: "int \<Rightarrow> int \<Rightarrow> ctx_op list" where
  "grid_ops pw ph =
     [StrokeStyle ''#232f3a'', LineWidth 1]
     @ concat (map (\<lambda>i. let gy = value_y ph 4 (of_int i)
                         in [BeginPath, MoveTo (of_int PAD_L) (of_int gy),
                             LineTo (of_int (PAD_L + pw)) (of_int gy), Stroke])
                 [0, 1, 2, 3, 4 :: int])"

definition label_ops :: "host \<Rightarrow> int \<Rightarrow> int \<Rightarrow> int \<Rightarrow> ctx_op list" where
  "label_ops h cH pw ph =
     [FillStyle ''#64707d'', Font ''10px Courier New'']
     @ concat (map (\<lambda>(mn, label).
                  let lx = minute_x pw mn;
                      tw = text_width h label;
                      fx = max (of_int PAD_L) (min (of_int lx - tw / 2) (of_int (PAD_L + pw) - tw))
                  in [BeginPath, MoveTo (of_int lx) (of_int (PAD_T + ph)),
                      LineTo (of_int lx) (of_int (PAD_T + ph + 3)), Stroke,
                      FillText label fx (of_int (cH - 3))])
                 timeLabels)"

definition alarm_ops :: "int \<Rightarrow> int \<Rightarrow> rat \<Rightarrow> ctx_op list" where
  "alarm_ops pw ph yMax =
     (if thresh \<le> yMax
      then (let ay = value_y ph yMax thresh
            in [StrokeStyle ''rgba(220,50,50,0.7)'', LineWidth 1, SetLineDash [4, 3],
                BeginPath, MoveTo (of_int PAD_L) (of_int ay),
                LineTo (of_int (PAD_L + pw)) (of_int ay), Stroke,
                SetLineDash [], FillStyle ''#dc3232'',
                FillText ''ALM'' (of_int (PAD_L + pw - 22)) (of_int (ay - 3))])
      else [])"

definition now_ops :: "host \<Rightarrow> int \<Rightarrow> int \<Rightarrow> ctx_op list" where
  "now_ops h pw ph =
     (let curMin = now_hours h * 60 + now_minutes h;
          nowX = minute_x pw (of_int curMin);
          nowTw = text_width h ''NOW'';
          nowLx = (if of_int nowX + nowTw + 6 < of_int (PAD_L + pw)
                   then of_int nowX + 3 else of_int nowX - nowTw - 3)
      in (if nowX < PAD_L + pw
          then [FillStyle ''rgba(255,255,255,0.04)'',
                FillRect (of_int (nowX + 1)) (of_int PAD_T) (of_int (PAD_L + pw - nowX - 1)) (of_int ph)]
          else [])
         @ [StrokeStyle ''#ffdc3c'', LineWidth 1,
            BeginPath, MoveTo (of_int nowX) (of_int PAD_T), LineTo (of_int nowX) (of_int (PAD_T + ph)),
            Stroke, FillStyle ''#ffdc3c'', FillText ''NOW'' nowLx (of_int (PAD_T + 10))])"

text \<open>
  Reading a component of the last entry of an array, as in \<^verbatim>\<open>a[a.length - 1][0]\<close> or a
  destructuring of \<^verbatim>\<open>a[a.length - 1]\<close>: on an empty array the entry is \<^verbatim>\<open>undefined\<close> and
  the read throws.
\<close>

definition last_entry :: "'a list \<Rightarrow> js_error + 'a" where
  "last_entry xs = (case xs of [] \<Rightarrow> Inl TypeError | _ # _ \<Rightarrow> Inr (last xs))"

definition area_ops :: "int \<Rightarrow> (int \<times> int) list \<Rightarrow> ctx_op list" where
  "area_ops ph points =
     [BeginPath, MoveTo (of_int PAD_L) (of_int (PAD_T + ph))]
     @ map (\<lambda>(x, y). LineTo (of_int x) (of_int y)) points"

definition line_ops :: "(int \<times> int) list \<Rightarrow> ctx_op list" where
  "line_ops points =
     BeginPath
     # (case points of [] \<Rightarrow> []
        | (x, y) # rest \<Rightarrow> MoveTo (of_int x) (of_int y) # map (\<lambda>(x, y). LineTo (of_int x) (of_int y)) rest)
     @ [StrokeStyle ''#00b4ff'', LineWidth 2, Stroke]"

definition dot_ops :: "int \<Rightarrow> int \<Rightarrow> ctx_op list" where
  "dot_ops lx ly =
     [BeginPath, Arc (of_int lx) (of_int ly) 5, FillStyle ''#12161c'', Fill,
      BeginPath, Arc (of_int lx) (of_int ly) 4, StrokeStyle ''#00b4ff'', LineWidth 2, Stroke,
      BeginPath, Arc (of_int lx) (of_int ly) 2, FillStyle ''#fff'', Fill]"

definition value_label_ops :: "host \<Rightarrow> int \<Rightarrow> int \<Rightarrow> int \<Rightarrow> rat \<Rightarrow> ctx_op list" where
  "value_label_ops h pw lx ly curRms =
     (let lbl = toFixed 3 curRms @ ''g'';
          lblW = text_width h lbl;
          lblX = (if of_int lx + lblW + 8 < of_int (PAD_L + pw)
                  then of_int lx + 6 else of_int lx - lblW - 4)
      in [FillStyle ''#dce1e6'', FillText lbl lblX (of_int (ly - 5))])"

text \<open>
  The part of \<^verbatim>\<open>renderChart\<close> after the test \<^verbatim>\<open>history.length < 2\<close>. The result is the
  drawing calls made, on the left with the error when a read of a last entry throws.
\<close>

definition data_ops ::
  "host \<Rightarrow> int \<Rightarrow> int \<Rightarrow> rat \<Rightarrow> (rat \<times> rat) list \<Rightarrow> js_error \<times> ctx_op list + ctx_op list" where
  "data_ops h pw ph yMax hist =
     (let points = chart_points pw ph yMax hist;
          ops1 = area_ops ph points
      in case last_entry points of
           Inl e \<Rightarrow> Inl (e, ops1)
         | Inr (ex, ey) \<Rightarrow>
             (let ops2 = ops1
                    @ [LineTo (of_int ex) (of_int (PAD_T + ph)), ClosePath,
                       FillStyle ''rgba(0,72,130,0.55)'', Fill]
                    @ line_ops points
              in case last_entry points of
                   Inl e \<Rightarrow> Inl (e, ops2)
                 | Inr (lx, ly) \<Rightarrow>
                     (let ops3 = ops2 @ dot_ops lx ly
                      in case last_entry hist of
                           Inl e \<Rightarrow> Inl (e, ops3)
                         | Inr (m, curRms) \<Rightarrow> Inr (ops3 @ value_label_ops h pw lx ly curRms))))"

definition renderChart :: "host \<Rightarrow> sensor_data \<Rightarrow> world \<Rightarrow> world outcome" where
  "renderChart h d w =
     (if \<not> has_ctx w \<or> chartW w = 0 \<or> chartH w = 0 then Inr w
      else
        (let hist = history d;
             pw = plot_w (chartW w);
             ph = plot_h (chartH w);
             yMax = computeYMax (map snd hist);
             ops0 = canvas w
                    @ [ClearRect 0 0 (of_int (chartW w)) (of_int (chartH w))]
                    @ title_ops h @ grid_ops pw ph @ label_ops h (chartH w) pw ph
                    @ alarm_ops pw ph yMax @ now_ops h pw ph
         in if length hist < 2 then Inr (w\<lparr>canvas := ops0\<rparr>)
            else (case data_ops h pw ph yMax hist of
                    Inl (e, ops) \<Rightarrow> Inl (e, w\<lparr>canvas := ops0 @ ops\<rparr>)
                  | Inr ops \<Rightarrow> Inr (w\<lparr>canvas := ops0 @ ops\<rparr>))))"

text \<open>The listener registered for \<^verbatim>\<open>sensor_update\<close>.\<close>

definition on_sensor_update :: "host \<Rightarrow> sensor_data message \<Rightarrow> world \<Rightarrow> world outcome" where
  "on_sensor_update h msg w =
     and_then (try_page (updateTiles h (mdata msg)) (w\<lparr>sensorData := Some (mdata msg)\<rparr>))
       (renderChart h (mdata msg))"

subsection \<open>dashboard.js: the scale in the range of doubles\<close>

text \<open>
  The rational functions above are the code's arithmetic as long as every result stays
  in the range of doubles. Outside it a result is an infinity, and an infinity divided
  by an infinity is \<^verbatim>\<open>NaN\<close>. The functions below are \<^verbatim>\<open>computeYMax\<close> and the y-coordinate
  of a plotted point with that range written out: an operation whose exact result
  reaches \<open>2^1024 - 2^970\<close>, half a step above the largest double, gives an infinity.
  Inside the range a result is left exact. The code's result is the exact one rounded
  to a nearest double; the rounding is monotone and fixes the integers and the
  multiples of 0.25 that occur, and the constant \<^verbatim>\<open>1.15\<close> is a double above 1 and below
  \<open>115/100\<close>, so the bounds proved of the exact results hold of the rounded ones, and a
  product that stays in the range here stays in it there.
\<close>

datatype js_number = Finite rat | PosInfinity | NegInfinity | NaN

definition overflow_limit :: rat where
  "overflow_limit = 2 ^ 1024 - 2 ^ 970"

definition to_double :: "rat \<Rightarrow> js_number" where
  "to_double x =
     (if overflow_limit \<le> x then PosInfinity
      else if x \<le> - overflow_limit then NegInfinity
      else Finite x)"

text \<open>The sign of a number that is not \<^verbatim>\<open>NaN\<close>: \<open>- 1\<close>, \<open>0\<close> or \<open>1\<close>.\<close>

fun sign_of :: "js_number \<Rightarrow> int" where
  "sign_of (Finite x) = (if x < 0 then - 1 else if x = 0 then 0 else 1)"
| "sign_of PosInfinity = 1"
| "sign_of NegInfinity = - 1"
| "sign_of NaN = 0"

definition signed_infinity :: "int \<Rightarrow> js_number" where
  "signed_infinity s = (if s = 0 then NaN else if 0 < s then PosInfinity else NegInfinity)"

fun js_mul :: "js_number \<Rightarrow> js_number \<Rightarrow> js_number" where
  "js_mul NaN y = NaN"
| "js_mul x NaN = NaN"
| "js_mul (Finite a) (Finite b) = to_double (a * b)"
| "js_mul x y = signed_infinity (sign_of x * sign_of y)"

text \<open>Division; a zero divisor is the positive zero.\<close>

fun js_div :: "js_number \<Rightarrow> js_number \<Rightarrow> js_number" where
  "js_div NaN y = NaN"
| "js_div x NaN = NaN"
| "js_div (Finite a) (Finite b) = (if b = 0 then signed_infinity (sign_of (Finite a)) else to_double (a / b))"
| "js_div (Finite a) y = Finite 0"
| "js_div x (Finite b) = signed_infinity (sign_of x * (if b < 0 then - 1 else 1))"
| "js_div x y = NaN"

fun js_sub :: "js_number \<Rightarrow> js_number \<Rightarrow> js_number" where
  "js_sub NaN y = NaN"
| "js_sub x NaN = NaN"
| "js_sub (Finite a) (Finite b) = to_double (a - b)"
| "js_sub (Finite a) PosInfinity = NegInfinity"
| "js_sub (Finite a) NegInfinity = PosInfinity"
| "js_sub PosInfinity PosInfinity = NaN"
| "js_sub NegInfinity NegInfinity = NaN"
| "js_sub x y = x"

text \<open>\<^verbatim>\<open>x <= y\<close>, false with a \<^verbatim>\<open>NaN\<close> on either side.\<close>

fun js_le :: "js_number \<Rightarrow> js_number \<Rightarrow> bool" where
  "js_le NaN y = False"
| "js_le x NaN = False"
| "js_le (Finite a) (Finite b) = (a \<le> b)"
| "js_le NegInfinity y = True"
| "js_le x PosInfinity = True"
| "js_le x y = False"

text \<open>\<^verbatim>\<open>Math.max\<close> and \<^verbatim>\<open>Math.min\<close> of two numbers: \<^verbatim>\<open>NaN\<close> if either is.\<close>

definition js_max :: "js_number \<Rightarrow> js_number \<Rightarrow> js_number" where
  "js_max x y = (if x = NaN \<or> y = NaN then NaN else if js_le x y then y else x)"

definition js_min :: "js_number \<Rightarrow> js_number \<Rightarrow> js_number" where
  "js_min x y = (if x = NaN \<or> y = NaN then NaN else if js_le x y then x else y)"

fun js_ceil :: "js_number \<Rightarrow> js_number" where
  "js_ceil (Finite x) = Finite (of_int \<lceil>x\<rceil>)"
| "js_ceil x = x"

fun js_round_d :: "js_number \<Rightarrow> js_number" where
  "js_round_d (Finite x) = Finite (of_int (js_round x))"
| "js_round_d x = x"

definition computeYMax_d :: "rat list \<Rightarrow> js_number" where
  "computeYMax_d values =
     (let mx = (case values of [] \<Rightarrow> 0 | v # vs \<Rightarrow> fold max vs v);
          raw = js_max (Finite 1) (js_mul (Finite mx) (Finite (115 / 100)))
      in js_div (js_ceil (js_mul raw (Finite 4))) (Finite 4))"

text \<open>
  \<^verbatim>\<open>Math.max(py, Math.min(py + ph, py + ph - Math.round(ph * rms / yMax)))\<close>, the
  y-coordinate of the point plotted for \<open>rms\<close>.
\<close>

definition point_y_d :: "int \<Rightarrow> js_number \<Rightarrow> rat \<Rightarrow> js_number" where
  "point_y_d ph yMax rms =
     (let y = js_sub (Finite (of_int (PAD_T + ph)))
                (js_round_d (js_div (js_mul (Finite (of_int ph)) (Finite rms)) yMax))
      in js_max (Finite (of_int PAD_T)) (js_min (Finite (of_int (PAD_T + ph))) y))"

subsection \<open>setup.js: on-screen keyboard\<close>

text \<open>A run of one-character keys, written as one text.\<close>

definition keys_of :: "string \<Rightarrow> string list" where
  "keys_of s = map (\<lambda>c. [c]) s"

definition LAYOUTS :: "kbd_mode \<Rightarrow> string list list" where
  "LAYOUTS mode =
     (case mode of
        Lower \<Rightarrow>
          [keys_of ''qwertyuiop'',
           keys_of ''asdfghjkl'',
           [''SHF''] @ keys_of ''zxcvbnm'' @ [''DEL''],
           [''123''] @ keys_of ''@.'' @ [''SPACE'', ''OK'']]
      | Upper \<Rightarrow>
          [keys_of ''QWERTYUIOP'',
           keys_of ''ASDFGHJKL'',
           [''shf''] @ keys_of ''ZXCVBNM'' @ [''DEL''],
           [''123''] @ keys_of ''@.'' @ [''SPACE'', ''OK'']]
      | Num \<Rightarrow>
          [keys_of ''1234567890'',
           keys_of ''-_!@#$%&*'' @ [''DEL''],
           keys_of ''.,=+[]();:'',
           [''ABC'', ''SPACE'', ''OK'']])"

text \<open>The shift sign and the erase sign, in UTF-8.\<close>

definition shift_sign :: string where
  "shift_sign = [CHR 0xE2, CHR 0x87, CHR 0xA7]"

definition erase_sign :: string where
  "erase_sign = [CHR 0xE2, CHR 0x8C, CHR 0xAB]"

definition key_label :: "string \<Rightarrow> string" where
  "key_label k =
     (if k = ''SHF'' \<or> k = ''shf'' then shift_sign
      else if k = ''DEL'' then erase_sign
      else if k = ''SPACE'' then []
      else k)"

definition key_class :: "string \<Rightarrow> string" where
  "key_class k =
     ''kbd-key''
     @ (if k = ''SPACE'' then '' key-space'' else [])
     @ (if k = ''OK'' then '' key-ok'' else [])
     @ (if k \<in> set [''SHF'', ''shf'', ''DEL'', ''123'', ''ABC''] then '' special'' else [])"

definition key_html :: "string \<Rightarrow> string" where
  "key_html k =
     ''<button class='' @ [CHR 0x22] @ key_class k @ [CHR 0x22]
     @ '' ontouchstart='' @ [CHR 0x22] @ ''Setup.kbdPress('' @ [CHR 0x27] @ k @ [CHR 0x27] @ '')'' @ [CHR 0x22]
     @ '' onclick='' @ [CHR 0x22] @ ''Setup.kbdPress('' @ [CHR 0x27] @ k @ [CHR 0x27] @ '')'' @ [CHR 0x22]
     @ ''>'' @ key_label k @ ''</button>''"

definition row_html :: "string list \<Rightarrow> string" where
  "row_html row =
     ''<div class='' @ [CHR 0x22] @ ''kbd-row'' @ [CHR 0x22] @ ''>''
     @ concat (map key_html row) @ ''</div>''"

definition buildKeyboard :: "world \<Rightarrow> world outcome" where
  "buildKeyboard w =
     try_page (must_elem ''keyboard''
                 (\<lambda>el. el\<lparr>innerHTML := concat (map row_html (LAYOUTS (kbdMode w)))\<rparr>)) w"

text \<open>
  The typed text is made of the keys of the layouts, which are ASCII: its length in
  characters is the \<^verbatim>\<open>length\<close> the script reads.
\<close>

definition updateKbdDisplay :: "world \<Rightarrow> world" where
  "updateKbdDisplay w =
     on_page (on_elem ''kbd-input-display''
                (\<lambda>el. el\<lparr>textContent := replicate (length (kbdText w)) CHR ''*''\<rparr>)) w"

definition setWifiStatus :: "string \<Rightarrow> string \<Rightarrow> world \<Rightarrow> world" where
  "setWifiStatus msg cls w =
     on_page (on_elem ''wifi-status''
                (\<lambda>el. el\<lparr>textContent := msg, classList := [''status-msg''] @ (if cls = [] then [] else [cls])\<rparr>)) w"

text \<open>The text of \<^verbatim>\<open>selectedSSID\<close> in a template literal.\<close>

definition ssid_text :: "string option \<Rightarrow> string" where
  "ssid_text s = (case s of None \<Rightarrow> ''null'' | Some n \<Rightarrow> n)"

definition kbdPress :: "string \<Rightarrow> world \<Rightarrow> world outcome" where
  "kbdPress key w =
     (if key = ''DEL'' then Inr (updateKbdDisplay (w\<lparr>kbdText := butlast (kbdText w)\<rparr>))
      else if key = ''SPACE'' then Inr (updateKbdDisplay (w\<lparr>kbdText := kbdText w @ '' ''\<rparr>))
      else if key = ''SHF'' then buildKeyboard (w\<lparr>kbdMode := Upper\<rparr>)
      else if key = ''shf'' then buildKeyboard (w\<lparr>kbdMode := Lower\<rparr>)
      else if key = ''123'' then buildKeyboard (w\<lparr>kbdMode := Num\<rparr>)
      else if key = ''ABC'' then buildKeyboard (w\<lparr>kbdMode := Lower\<rparr>)
      else if key = ''OK'' then
        and_then (try_page (must_elem ''keyboard-overlay'' (class_add ''hidden'')) w)
          (\<lambda>w1. Inr (setWifiStatus (''Connecting to '' @ ssid_text (selectedSSID w1) @ ''...'') ''warn''
                       (send (Wifi_connect (selectedSSID w1) (kbdText w1)) w1)))
      else
        (let w1 = w\<lparr>kbdText := kbdText w @ key\<rparr>
         in and_then (if kbdMode w1 = Upper then buildKeyboard (w1\<lparr>kbdMode := Lower\<rparr>) else Inr w1)
              (\<lambda>w2. Inr (updateKbdDisplay w2))))"

text \<open>
  A run of key presses. Each press is an event of its own: a press that throws leaves
  the state it reached, and the next press starts from there.
\<close>

fun presses :: "string list \<Rightarrow> world \<Rightarrow> world" where
  "presses [] w = w"
| "presses (k # ks) w = presses ks (final (kbdPress k w))"

text \<open>
  What the viewer shows and what decides its next screens, apart from the typed text:
  two states look alike when they differ at most in \<open>kbdText\<close> and \<open>outbox\<close> and their
  typed texts have the same length.
\<close>

definition alike :: "world \<Rightarrow> world \<Rightarrow> bool" where
  "alike w1 w2 \<longleftrightarrow>
     w1\<lparr>kbdText := [], outbox := []\<rparr> = w2\<lparr>kbdText := [], outbox := []\<rparr>
     \<and> length (kbdText w1) = length (kbdText w2)"

text \<open>
  The keys that stand for themselves and enter the typed text, and two keys that the
  screen must not tell apart: the same control key, or two text keys of one length.
\<close>

definition text_key :: "string \<Rightarrow> bool" where
  "text_key k \<longleftrightarrow> k \<notin> set [''DEL'', ''SPACE'', ''SHF'', ''shf'', ''123'', ''ABC'', ''OK'']"

definition same_shape :: "string \<Rightarrow> string \<Rightarrow> bool" where
  "same_shape k1 k2 = (if text_key k1 then text_key k2 \<and> length k1 = length k2 else k1 = k2)"

text \<open>The display element, where the page has one, holds asterisks and nothing else.\<close>

definition display_masked :: "document \<Rightarrow> bool" where
  "display_masked d =
     (case byId d ''kbd-input-display'' of
        None \<Rightarrow> True
      | Some el \<Rightarrow> list_all (\<lambda>c. c = CHR ''*'') (textContent el))"

text \<open>
  An entry of \<^verbatim>\<open>wifiNetworks\<close>, and \<^verbatim>\<open>wifiSelect\<close>, which opens the keyboard for a secured
  network. The list is the script's variable, set when a scan result is rendered; an
  index outside it reads \<^verbatim>\<open>undefined.ssid\<close> and throws.
\<close>

record network =
  ssid :: string
  signal :: rat
  secured :: bool

definition wifiSelect :: "network list \<Rightarrow> nat \<Rightarrow> world \<Rightarrow> world outcome" where
  "wifiSelect wifiNetworks idx w =
     (if \<not> idx < length wifiNetworks then Inl (TypeError, w)
      else
        (let n = wifiNetworks ! idx;
             w1 = w\<lparr>selectedSSID := Some (ssid n)\<rparr>
         in if \<not> secured n
            then Inr (setWifiStatus (''Connecting to '' @ ssid_text (selectedSSID w1) @ ''...'') ''warn''
                        (send (Wifi_connect (selectedSSID w1) []) w1))
            else and_then
                   (try_page (must_elem ''kbd-ssid-label'' (\<lambda>el. el\<lparr>textContent := ssid n\<rparr>))
                      (w1\<lparr>kbdText := [], kbdMode := Lower\<rparr>))
                   (\<lambda>w2. and_then (buildKeyboard (updateKbdDisplay w2))
                           (try_page (must_elem ''keyboard-overlay'' (class_remove ''hidden''))))))"

subsection \<open>Sample states\<close>

text \<open>A page with the elements the scripts look up, a host, an update and a viewer state.\<close>

definition sample_element :: element where
  "sample_element = \<lparr>textContent = [], innerHTML = [], classList = [], style = Map.empty\<rparr>"

definition sample_page :: document where
  "sample_page =
     \<lparr>byId = [''view-main'' \<mapsto> class_add ''active'' sample_element,
               ''view-setup'' \<mapsto> sample_element,
               ''alarm-badge'' \<mapsto> class_add ''hidden'' sample_element,
               ''clock'' \<mapsto> sample_element,
               ''tile-rms'' \<mapsto> sample_element,
               ''conn-dot'' \<mapsto> sample_element,
               ''conn-label'' \<mapsto> sample_element,
               ''kbd-input-display'' \<mapsto> sample_element],
      tile_value = Some sample_element,
      signal_bars = [sample_element, sample_element, sample_element, sample_element]\<rparr>"

definition sample_host :: host where
  "sample_host =
     \<lparr>num_text = toFixed 0, text_width = (\<lambda>s. 6 * of_nat (length s)),
      local_date = ''11/3/2026'', time_text = ''07:22:00 GMT+0000 (UTC)'',
      now_hours = 7, now_minutes = 22\<rparr>"

definition sample_data :: sensor_data where
  "sample_data =
     \<lparr>vib_rms = 82 / 100, vib_peak = 131 / 100, temp = 215 / 10, humidity = 40,
      alarm = True, connected = False, battery = 76, rssi = - 67,
      history = [(440, 3 / 10), (441, 82 / 100)]\<rparr>"

definition sample_world :: world where
  "sample_world =
     \<lparr>page = sample_page, canvas = [], ws = Some OPEN, currentView = MainView, outbox = [],
      has_ctx = True, chartW = 314, chartH = 138, sensorData = None,
      selectedSSID = Some ''Home'', kbdText = ''pw'', kbdMode = Lower\<rparr>"

definition sample_update :: "sensor_data message" where
  "sample_update = \<lparr>mtype = ''sensor_update'', mdata = sample_data\<rparr>"

definition toggle_msg :: "unit message" where
  "toggle_msg = \<lparr>mtype = ''toggle_view'', mdata = ()\<rparr>"

definition no_listeners :: "string \<Rightarrow> (unit message \<Rightarrow> world \<Rightarrow> world outcome) list" where
  "no_listeners t = []"

subsection \<open>setup.js: HTML escaping\<close>

text \<open>
  \<^verbatim>\<open>s.replace(/c/g, rep)\<close> for a one-character pattern and a replacement text without
  \<^verbatim>\<open>$\<close>: every occurrence of the character is replaced, left to right, and the
  replacement text is not scanned again.
\<close>

definition replace_all :: "char \<Rightarrow> string \<Rightarrow> string \<Rightarrow> string" where
  "replace_all c rep s = concat (map (\<lambda>x. if x = c then rep else [x]) s)"

definition escHtml :: "string \<Rightarrow> string" where
  "escHtml s =
     replace_all (CHR 0x22) ''&quot;''
       (replace_all CHR ''>'' ''&gt;''
         (replace_all CHR ''<'' ''&lt;''
           (replace_all CHR ''&'' ''&amp;'' s)))"

definition html_entities :: "string list" where
  "html_entities = [''&amp;'', ''&lt;'', ''&gt;'', ''&quot;'']"

text \<open>The four passes seen as one pass over the input characters.\<close>

definition esc_char :: "char \<Rightarrow> string" where
  "esc_char c =
     (if c = CHR ''&'' then ''&amp;''
      else if c = CHR ''<'' then ''&lt;''
      else if c = CHR ''>'' then ''&gt;''
      else if c = CHR 0x22 then ''&quot;''
      else [c])"

text \<open>Every ampersand of a text starts one of the four entities.\<close>

fun amp_ok :: "string \<Rightarrow> bool" where
  "amp_ok [] = True"
| "amp_ok (c # cs) =
     ((c = CHR ''&'' \<longrightarrow> (\<exists>e \<in> set html_entities. prefix e (c # cs))) \<and> amp_ok cs)"

section \<open>Properties\<close>

subsection \<open>HTML escaping\<close>

lemma replace_all_Nil: "replace_all c rep [] = []"
  by (simp add: replace_all_def)

lemma replace_all_append:
  "replace_all c rep (s @ t) = replace_all c rep s @ replace_all c rep t"
  by (simp add: replace_all_def)

lemma replace_all_Cons:
  "replace_all c rep (x # s) = (if x = c then rep else [x]) @ replace_all c rep s"
  by (simp add: replace_all_def)

lemma escHtml_Nil: "escHtml [] = []"
  by (simp add: escHtml_def replace_all_Nil)

lemma escHtml_append: "escHtml (s @ t) = escHtml s @ escHtml t"
  by (simp add: escHtml_def replace_all_append)

lemma escHtml_single: "escHtml [c] = esc_char c"
  by (simp add: escHtml_def esc_char_def replace_all_Cons replace_all_Nil)

lemma escHtml_Cons: "escHtml (c # s) = esc_char c @ escHtml s"
proof -
  have "escHtml (c # s) = escHtml ([c] @ s)" by simp
  also have "\<dots> = esc_char c @ escHtml s"
    by (simp only: escHtml_append escHtml_single)
  finally show ?thesis .
qed

lemma escHtml_one_pass: "escHtml s = concat (map esc_char s)"
  by (induction s) (simp_all add: escHtml_Nil escHtml_Cons)

lemma esc_char_no_markup:
  "CHR ''<'' \<notin> set (esc_char c)" "CHR ''>'' \<notin> set (esc_char c)"
  "CHR 0x22 \<notin> set (esc_char c)"
  by (simp_all add: esc_char_def)

lemma escHtml_no_markup:
  "CHR ''<'' \<notin> set (escHtml s)" "CHR ''>'' \<notin> set (escHtml s)"
  "CHR 0x22 \<notin> set (escHtml s)"
  by (simp_all add: escHtml_one_pass esc_char_no_markup)

lemma amp_ok_esc_char: "amp_ok rest \<Longrightarrow> amp_ok (esc_char c @ rest)"
  by (simp add: esc_char_def html_entities_def)

lemma amp_ok_escHtml: "amp_ok (escHtml s)"
  by (induction s) (simp_all add: escHtml_Nil escHtml_Cons amp_ok_esc_char)

lemma amp_ok_nth:
  "amp_ok s \<Longrightarrow> i < length s \<Longrightarrow> s ! i = CHR ''&''
     \<Longrightarrow> \<exists>e \<in> set html_entities. prefix e (drop i s)"
proof (induction s arbitrary: i)
  case Nil
  then show ?case by simp
next
  case (Cons c cs)
  show ?case
  proof (cases i)
    case 0
    with Cons.prems show ?thesis by simp
  next
    case (Suc j)
    with Cons.prems have "amp_ok cs" "j < length cs" "cs ! j = CHR ''&''"
      by simp_all
    from Cons.IH [OF this] Suc show ?thesis by simp
  qed
qed

text \<open>
  C10. For every input text, the result of \<open>escHtml\<close> contains none of the characters
  \<^verbatim>\<open><\<close>, \<^verbatim>\<open>>\<close> and the double quote; every ampersand of the result is the first
  character of one of \<^verbatim>\<open>&amp;\<close>, \<^verbatim>\<open>&lt;\<close>, \<^verbatim>\<open>&gt;\<close>, \<^verbatim>\<open>&quot;\<close>; and a single
  quote of the input is copied to the result as it is, wherever it stands.
\<close>

theorem escHtml_safe:
  "CHR ''<'' \<notin> set (escHtml s) \<and> CHR ''>'' \<notin> set (escHtml s) \<and> CHR 0x22 \<notin> set (escHtml s)
   \<and> (\<forall>i < length (escHtml s). escHtml s ! i = CHR ''&''
          \<longrightarrow> (\<exists>e \<in> set html_entities. prefix e (drop i (escHtml s))))
   \<and> escHtml (u @ [CHR 0x27] @ v) = escHtml u @ [CHR 0x27] @ escHtml v"
proof -
  have "escHtml [CHR 0x27] = [CHR 0x27]"
    by (simp add: escHtml_single esc_char_def)
  then have "escHtml (u @ [CHR 0x27] @ v) = escHtml u @ [CHR 0x27] @ escHtml v"
    by (simp only: escHtml_append)
  moreover have "\<forall>i < length (escHtml s). escHtml s ! i = CHR ''&''
          \<longrightarrow> (\<exists>e \<in> set html_entities. prefix e (drop i (escHtml s)))"
    using amp_ok_nth [OF amp_ok_escHtml] by blast
  ultimately show ?thesis
    using escHtml_no_markup [of s] by blast
qed

theorem escHtml_safe_witness:
  "escHtml ''<a href=x>&'' = ''&lt;a href=x&gt;&amp;''
   \<and> (12::nat) < length (escHtml ''<a href=x>&'') \<and> escHtml ''<a href=x>&'' ! 12 = CHR ''&''
   \<and> (\<exists>e \<in> set html_entities. prefix e (drop 12 (escHtml ''<a href=x>&'')))"
proof -
  have e: "escHtml ''<a href=x>&'' = ''&lt;a href=x&gt;&amp;''"
    by (simp add: escHtml_def replace_all_def)
  have "(12::nat) < length (escHtml ''<a href=x>&'')"
    and "escHtml ''<a href=x>&'' ! 12 = CHR ''&''"
    by (simp_all add: e)
  with escHtml_safe [of "''<a href=x>&''"] e show ?thesis
    by blast
qed

subsection \<open>Chart geometry\<close>

lemma js_round_nonneg: "0 \<le> x \<Longrightarrow> 0 \<le> js_round x"
  by (simp add: js_round_def)

lemma js_round_le: "x \<le> of_int n \<Longrightarrow> js_round x \<le> n"
  unfolding js_round_def by linarith

lemma js_round_mono: "x \<le> y \<Longrightarrow> js_round x \<le> js_round y"
  unfolding js_round_def by (simp add: floor_mono)

lemma js_round_of_int: "js_round (of_int n) = n"
  unfolding js_round_def by linarith

lemma scale_bounds:
  fixes v t :: rat and n :: int
  assumes "0 \<le> n" "0 \<le> v" "v \<le> t" "0 < t"
  shows "0 \<le> of_int n * v / t" "of_int n * v / t \<le> of_int n"
proof -
  show "0 \<le> of_int n * v / t" using assms by simp
  have "of_int n * v \<le> of_int n * t"
    using assms by (simp add: mult_left_mono)
  then show "of_int n * v / t \<le> of_int n"
    using assms by (simp add: pos_divide_le_eq)
qed

text \<open>The two ends of the axis are met for every width.\<close>

lemma minute_x_ends: "minute_x pw 0 = PAD_L" "minute_x pw 1439 = PAD_L + pw"
  using js_round_of_int [of pw] js_round_of_int [of 0]
  by (simp_all add: minute_x_def MINUTES_def)

text \<open>
  C6, as amended. When the plot is at least zero pixels wide (\<open>0 \<le> pw\<close>, a canvas of
  14 pixels or more), every minute \<open>m\<close> in \<open>0..1439\<close> is drawn at an x-coordinate
  between the left edge \<open>PAD_L\<close> and the right edge \<open>PAD_L + pw\<close>; minute 0 is drawn at
  the left edge and minute 1439 at the right edge; and a later minute is never
  drawn to the left of an earlier one.
\<close>

theorem minute_x_in_plot:
  assumes "0 \<le> pw" "0 \<le> m" "m \<le> m'" "m' \<le> 1439"
  shows "PAD_L \<le> minute_x pw m \<and> minute_x pw m \<le> minute_x pw m'
         \<and> minute_x pw m' \<le> PAD_L + pw
         \<and> minute_x pw 0 = PAD_L \<and> minute_x pw 1439 = PAD_L + pw"
proof -
  have lo: "0 \<le> m * of_int pw / 1439" using assms by simp
  have "m * of_int pw \<le> m' * of_int pw"
    using assms by (simp add: mult_right_mono)
  then have mono: "m * of_int pw / 1439 \<le> m' * of_int pw / 1439"
    by (simp add: divide_right_mono)
  have "of_int pw * m' / 1439 \<le> of_int pw"
    using scale_bounds(2) [of pw m' 1439] assms by simp
  then have hi: "m' * of_int pw / 1439 \<le> of_int pw"
    by (simp add: mult.commute)
  show ?thesis
    using js_round_nonneg [OF lo] js_round_mono [OF mono] js_round_le [OF hi]
      js_round_of_int [of pw] js_round_of_int [of 0]
    by (simp add: minute_x_def MINUTES_def)
qed

theorem minute_x_in_plot_witness:
  "(0::int) \<le> 300 \<and> (0::rat) \<le> 720 \<and> (720::rat) \<le> 1080 \<and> (1080::rat) \<le> 1439
   \<and> minute_x 300 720 = 156 \<and> minute_x 300 1080 = 231
   \<and> PAD_L \<le> minute_x 300 720 \<and> minute_x 300 720 \<le> minute_x 300 1080
   \<and> minute_x 300 1080 \<le> PAD_L + 300"
proof -
  have "minute_x 300 720 = 156" "minute_x 300 1080 = 231"
    by code_simp+
  with minute_x_in_plot [of 300 720 1080] show ?thesis
    by simp
qed

text \<open>
  Without the condition on the width, C6 does not hold. \<^verbatim>\<open>resize\<close> accepts every
  width above zero, and on a canvas 10 pixels wide the plot width is \<open>- 4\<close>: minute 0 is
  drawn at 6, to the right of the right edge 2, and minute 1439 is drawn at 2, to the
  left of minute 0.
\<close>

theorem minute_x_narrow_canvas:
  "(0::int) < 10 \<and> plot_w 10 = - 4 \<and> PAD_L + plot_w 10 = 2
   \<and> minute_x (plot_w 10) 0 = 6 \<and> minute_x (plot_w 10) 1439 = 2
   \<and> \<not> (PAD_L \<le> minute_x (plot_w 10) 0 \<and> minute_x (plot_w 10) 0 \<le> PAD_L + plot_w 10)
   \<and> \<not> (minute_x (plot_w 10) 0 \<le> minute_x (plot_w 10) 1439)"
proof -
  have w: "plot_w 10 = - 4" by (simp add: plot_w_def PAD_L_def PAD_R_def)
  have a: "minute_x (- 4) 0 = 6"
    by code_simp
  have b: "minute_x (- 4) 1439 = 2"
    by code_simp
  show ?thesis by (simp add: w a b PAD_L_def)
qed

subsection \<open>The vertical scale\<close>

lemma computeYMax_raw: "computeYMax values = of_int \<lceil>raw_max values * 4\<rceil> / 4"
  by (simp add: computeYMax_def raw_max_def Let_def)

lemma computeYMax_ge_raw: "raw_max values \<le> computeYMax values"
proof -
  have "raw_max values * 4 \<le> of_int \<lceil>raw_max values * 4\<rceil>"
    by (rule le_of_int_ceiling)
  then show ?thesis
    by (simp add: computeYMax_raw)
qed

lemma computeYMax_ge_one: "1 \<le> computeYMax values"
proof -
  have "1 \<le> raw_max values" by (simp add: raw_max_def)
  with computeYMax_ge_raw [of "values"] show ?thesis by linarith
qed

lemma computeYMax_quarter: "\<exists>k::int. computeYMax values = of_int k / 4"
  unfolding computeYMax_raw by blast

lemma computeYMax_upper:
  assumes "\<forall>v \<in> set values. 0 \<le> v" and "v \<in> set values"
  shows "v \<le> computeYMax values"
proof -
  obtain a as where vs: "values = a # as"
    using assms(2) by (cases "values") auto
  define mx where "mx = Max (set values)"
  have "v \<le> mx" unfolding mx_def using assms(2) by simp
  moreover have "0 \<le> v" using assms by blast
  ultimately have "v \<le> mx * (115 / 100)" by simp
  moreover have "fold max as a = Max (set (a # as))"
    by (simp only: Max.set_eq_fold)
  then have "raw_max values = max 1 (mx * (115 / 100))"
    by (simp only: raw_max_def vs mx_def list.case)
  ultimately have "v \<le> raw_max values" by simp
  with computeYMax_ge_raw [of "values"] show ?thesis by linarith
qed

text \<open>The scale and a point's height where nothing leaves the range of doubles.\<close>

lemma overflow_limit_big: "4 < overflow_limit" "2 ^ 32 < overflow_limit"
  by (simp_all add: overflow_limit_def)

lemma to_double_Finite: "- overflow_limit < x \<Longrightarrow> x < overflow_limit \<Longrightarrow> to_double x = Finite x"
  by (simp add: to_double_def)

lemma raw_max_ge_one: "1 \<le> raw_max values"
  by (simp add: raw_max_def)

lemma raw_max_in_range:
  assumes "\<forall>v \<in> set values. v * (115 / 100) * 4 < overflow_limit"
  shows "raw_max values * 4 < overflow_limit"
proof (cases "values")
  case Nil
  then show ?thesis using overflow_limit_big(1) by (simp add: raw_max_def)
next
  case (Cons a as)
  have "fold max as a = Max (set (a # as))"
    by (simp only: Max.set_eq_fold)
  moreover have "Max (set (a # as)) \<in> set (a # as)"
    by (rule Max_in) simp_all
  ultimately have "fold max as a * (115 / 100) * 4 < overflow_limit"
    using assms Cons by metis
  then show ?thesis
    using overflow_limit_big(1) by (simp add: raw_max_def Cons max_def)
qed

lemma computeYMax_d_Finite:
  assumes "raw_max values * 4 < overflow_limit"
  shows "computeYMax_d values = Finite (computeYMax values)"
proof -
  define mx where "mx = (case values of [] \<Rightarrow> 0 | v # vs \<Rightarrow> fold max vs v)"
  have raw: "raw_max values = max 1 (mx * (115 / 100))"
    by (simp add: raw_max_def mx_def)
  have r1: "1 \<le> raw_max values" by (rule raw_max_ge_one)
  have lim: "mx * (115 / 100) < overflow_limit"
    using assms r1 raw by linarith
  have a: "js_max (Finite 1) (js_mul (Finite mx) (Finite (115 / 100))) = Finite (raw_max values)"
    using lim overflow_limit_big(1) by (auto simp: to_double_def js_max_def raw max_def)
  have b: "js_mul (Finite (raw_max values)) (Finite 4) = Finite (raw_max values * 4)"
    using assms r1 overflow_limit_big(1) by (simp add: to_double_def)
  have "of_int \<lceil>raw_max values * 4\<rceil> - 1 < raw_max values * 4"
    "raw_max values * 4 \<le> of_int \<lceil>raw_max values * 4\<rceil>"
    using ceiling_correct [of "raw_max values * 4"] by blast+
  then have c: "- overflow_limit < (of_int \<lceil>raw_max values * 4\<rceil> :: rat) / 4"
    "(of_int \<lceil>raw_max values * 4\<rceil> :: rat) / 4 < overflow_limit"
    using assms r1 overflow_limit_big(1) by linarith+
  have "computeYMax_d values = to_double (of_int \<lceil>raw_max values * 4\<rceil> / 4)"
    unfolding computeYMax_d_def Let_def mx_def [symmetric] a b by simp
  also have "\<dots> = Finite (of_int \<lceil>raw_max values * 4\<rceil> / 4)"
    by (rule to_double_Finite [OF c])
  finally show ?thesis by (simp add: computeYMax_raw)
qed

lemma point_y_d_exact:
  assumes "0 \<le> ph" "ph < 2 ^ 31" "0 \<le> v" "v \<le> yMax" "1 \<le> yMax"
    and "of_int ph * v < overflow_limit"
  shows "point_y_d ph (Finite yMax) v = Finite (of_int (value_y ph yMax v))"
    and "clamp_y ph (value_y ph yMax v) = value_y ph yMax v"
    and "PAD_T \<le> value_y ph yMax v" and "value_y ph yMax v \<le> PAD_T + ph"
proof -
  have pos: "0 < yMax" using assms by simp
  from scale_bounds [OF assms(1,3,4) pos]
  have q: "0 \<le> of_int ph * v / yMax" "of_int ph * v / yMax \<le> of_int ph" .
  define r where "r = js_round (of_int ph * v / yMax)"
  have r: "0 \<le> r" "r \<le> ph"
    using q by (simp_all add: r_def js_round_nonneg js_round_le)
  have vy: "value_y ph yMax v = PAD_T + ph - r"
    by (simp add: value_y_def r_def)
  show "PAD_T \<le> value_y ph yMax v" "value_y ph yMax v \<le> PAD_T + ph"
    using r by (simp_all add: vy)
  then show "clamp_y ph (value_y ph yMax v) = value_y ph yMax v"
    by (simp add: clamp_y_def)
  have nn: "0 \<le> of_int ph * v" using assms by simp
  have m: "js_mul (Finite (of_int ph)) (Finite v) = Finite (of_int ph * v)"
    using assms(6) nn overflow_limit_big(1) by (simp add: to_double_def)
  have phr: "(of_int ph :: rat) < 2 ^ 32"
  proof -
    have "ph < 2 ^ 32" using assms(2) by simp
    then have "(of_int ph :: rat) < of_int (2 ^ 32)" by (simp only: of_int_less_iff)
    then show ?thesis by simp
  qed
  have "of_int ph * v / yMax < overflow_limit"
    using q(2) phr overflow_limit_big(2) by linarith
  then have d: "js_div (Finite (of_int ph * v)) (Finite yMax) = Finite (of_int ph * v / yMax)"
    using q(1) pos overflow_limit_big(1) by (simp add: to_double_def)
  have "PAD_T + ph < 2 ^ 32" using assms(2) by (simp add: PAD_T_def)
  then have "(of_int (PAD_T + ph) :: rat) < of_int (2 ^ 32)" by (simp only: of_int_less_iff)
  then have bnd: "(of_int (PAD_T + ph) :: rat) < overflow_limit"
    using overflow_limit_big(2) by simp
  have s: "js_sub (Finite (of_int (PAD_T + ph))) (Finite (of_int r)) = Finite (of_int (PAD_T + ph - r))"
    using r bnd assms(1) overflow_limit_big(1) by (simp add: to_double_def PAD_T_def)
  have "point_y_d ph (Finite yMax) v
          = js_max (Finite (of_int PAD_T))
              (js_min (Finite (of_int (PAD_T + ph))) (Finite (of_int (PAD_T + ph - r))))"
    unfolding point_y_d_def Let_def m d js_round_d.simps r_def [symmetric] s ..
  also have "\<dots> = Finite (of_int (PAD_T + ph - r))"
    using r by (simp add: js_min_def js_max_def)
  finally show "point_y_d ph (Finite yMax) v = Finite (of_int (value_y ph yMax v))"
    by (simp only: vy)
qed

lemma point_y_d_band:
  assumes "0 \<le> ph" "ph < 2 ^ 31" "0 \<le> v" "v \<le> yMax" "1 \<le> yMax"
  shows "\<exists>y. point_y_d ph (Finite yMax) v = Finite (of_int y) \<and> PAD_T \<le> y \<and> y \<le> PAD_T + ph"
proof (cases "of_int ph * v < overflow_limit")
  case True
  from point_y_d_exact(1,3,4) [OF assms True] show ?thesis by blast
next
  case False
  then have m: "js_mul (Finite (of_int ph)) (Finite v) = PosInfinity"
    by (simp add: to_double_def)
  have "point_y_d ph (Finite yMax) v
          = js_max (Finite (of_int PAD_T))
              (js_min (Finite (of_int (PAD_T + ph)))
                 (js_sub (Finite (of_int (PAD_T + ph)))
                    (js_round_d (js_div PosInfinity (Finite yMax)))))"
    unfolding point_y_d_def Let_def m ..
  also have "\<dots> = Finite (of_int PAD_T)"
    using assms(5) by (simp add: signed_infinity_def js_min_def js_max_def)
  finally have "point_y_d ph (Finite yMax) v = Finite (of_int PAD_T)" .
  moreover have "PAD_T \<le> PAD_T" "PAD_T \<le> PAD_T + ph"
    using assms(1) by simp_all
  ultimately show ?thesis by blast
qed

text \<open>
  C7, as amended. For a history of at most 1440 points whose rms values are not
  negative and small enough that the scale stays in the range of doubles
  (\<open>rms * 1.15 * 4\<close> below the limit, that is rms below about \<open>3.9e307\<close>), \<open>computeYMax\<close>
  of the values is a finite multiple of 0.25, is at least 1 and is at least every
  value; and when the plot is at least zero pixels high (\<open>0 \<le> ph\<close>, a canvas of 38
  pixels or more; a canvas height is a 32-bit integer), the clamped y-coordinate of
  every plotted point is a number between the top \<open>PAD_T\<close> and the bottom \<open>PAD_T + ph\<close>
  of the plot. The bound on the length is the store's cap on a history; it keeps the
  call \<^verbatim>\<open>Math.max(...arr)\<close> within the number of arguments an engine accepts.
\<close>

theorem computeYMax_bounds:
  assumes "\<forall>p \<in> set hist. 0 \<le> snd p \<and> snd p * (115 / 100) * 4 < overflow_limit"
    and "0 \<le> ph" and "ph < 2 ^ 31" and "length hist \<le> 1440"
  shows "computeYMax_d (map snd hist) = Finite (computeYMax (map snd hist))
         \<and> (\<exists>k::int. computeYMax (map snd hist) = of_int k / 4)
         \<and> 1 \<le> computeYMax (map snd hist)
         \<and> (\<forall>p \<in> set hist. snd p \<le> computeYMax (map snd hist))
         \<and> (\<forall>p \<in> set hist. \<exists>y.
               point_y_d ph (computeYMax_d (map snd hist)) (snd p) = Finite (of_int y)
               \<and> PAD_T \<le> y \<and> y \<le> PAD_T + ph)"
proof -
  let ?yMax = "computeYMax (map snd hist)"
  have nn: "\<forall>v \<in> set (map snd hist). 0 \<le> v" using assms(1) by simp
  have "\<forall>v \<in> set (map snd hist). v * (115 / 100) * 4 < overflow_limit"
    using assms(1) by simp
  from computeYMax_d_Finite [OF raw_max_in_range [OF this]]
  have fin: "computeYMax_d (map snd hist) = Finite ?yMax" .
  have up: "snd p \<le> ?yMax" if "p \<in> set hist" for p
    using computeYMax_upper [OF nn, of "snd p"] that by simp
  have band: "\<exists>y. point_y_d ph (computeYMax_d (map snd hist)) (snd p) = Finite (of_int y)
               \<and> PAD_T \<le> y \<and> y \<le> PAD_T + ph" if "p \<in> set hist" for p
  proof -
    have "0 \<le> snd p" using that assms(1) by blast
    from point_y_d_band [OF assms(2,3) this up [OF that] computeYMax_ge_one]
    show ?thesis unfolding fin .
  qed
  show ?thesis
    using fin computeYMax_quarter computeYMax_ge_one up band by blast
qed

theorem computeYMax_bounds_witness:
  "history sample_data = [(440, 3 / 10), (441, 82 / 100)]
   \<and> (0::rat) \<le> 3 / 10 \<and> (3 / 10) * (115 / 100) * 4 < overflow_limit
   \<and> (0::rat) \<le> 82 / 100 \<and> (82 / 100) * (115 / 100) * 4 < overflow_limit
   \<and> (0::int) \<le> plot_h 138 \<and> plot_h 138 < 2 ^ 31 \<and> length (history sample_data) \<le> 1440
   \<and> computeYMax_d (map snd (history sample_data)) = Finite 1
   \<and> point_y_d (plot_h 138) (computeYMax_d (map snd (history sample_data))) (3 / 10) = Finite 90
   \<and> point_y_d (plot_h 138) (computeYMax_d (map snd (history sample_data))) (82 / 100) = Finite 38
   \<and> PAD_T \<le> 38 \<and> 90 \<le> PAD_T + plot_h 138"
proof -
  have hs: "history sample_data = [(440, 3 / 10), (441, 82 / 100)]"
    by (simp add: sample_data_def)
  have l: "(3 / 10) * (115 / 100) * 4 < overflow_limit" "(82 / 100) * (115 / 100) * 4 < overflow_limit"
    by (simp_all add: overflow_limit_def)
  have h1: "\<forall>p \<in> set (history sample_data). 0 \<le> snd p \<and> snd p * (115 / 100) * 4 < overflow_limit"
    using l by (simp add: hs)
  have h2: "(0::int) \<le> plot_h 138" "plot_h 138 < 2 ^ 31"
    by (simp_all add: plot_h_def PAD_T_def PAD_B_def)
  have v: "computeYMax (map snd (history sample_data)) = 1"
    by (simp add: sample_data_def computeYMax_def)
  have ph: "plot_h 138 = 100" by (simp add: plot_h_def PAD_T_def PAD_B_def)
  have h3: "length (history sample_data) \<le> 1440" by (simp add: hs)
  from computeYMax_bounds [OF h1 h2 h3]
  have fin: "computeYMax_d (map snd (history sample_data)) = Finite 1"
    and band: "\<forall>p \<in> set (history sample_data). \<exists>y.
         point_y_d (plot_h 138) (computeYMax_d (map snd (history sample_data))) (snd p) = Finite (of_int y)
         \<and> PAD_T \<le> y \<and> y \<le> PAD_T + plot_h 138"
    unfolding v by blast+
  have a: "value_y 100 1 (3 / 10) = 90" "value_y 100 1 (82 / 100) = 38"
    by code_simp+
  have lim: "(of_int 100 :: rat) * (3 / 10) < overflow_limit" "(of_int 100 :: rat) * (82 / 100) < overflow_limit"
    by (simp_all add: overflow_limit_def)
  have p1: "point_y_d 100 (Finite 1) (3 / 10) = Finite 90"
    using point_y_d_exact(1) [of 100 "3 / 10" 1, OF _ _ _ _ _ lim(1)] a by simp
  have p2: "point_y_d 100 (Finite 1) (82 / 100) = Finite 38"
    using point_y_d_exact(1) [of 100 "82 / 100" 1, OF _ _ _ _ _ lim(2)] a by simp
  show ?thesis
    using band hs l h2 h3 fin p1 p2 by (simp add: ph PAD_T_def)
qed

text \<open>
  Without the conditions on the values and on the height C7 does not hold. For the
  single value \<open>2^1023\<close>, a
  double, \<open>raw * 4\<close> leaves the range: \<open>computeYMax\<close> is an infinity, no multiple of
  0.25, and on a plot 100 pixels high the point's y-coordinate is \<^verbatim>\<open>NaN\<close>, which the
  clamp keeps. And \<^verbatim>\<open>resize\<close> accepts every height above zero: on a canvas 20 pixels
  high the plot height is \<open>- 18\<close> and a point is drawn at y = 20, below the bottom 2 of
  the band.
\<close>

theorem point_y_leaves_band:
  "(0::rat) \<le> 2 ^ 1023 \<and> computeYMax_d [2 ^ 1023] = PosInfinity
   \<and> (0::int) \<le> 100 \<and> point_y_d 100 (computeYMax_d [2 ^ 1023]) (2 ^ 1023) = NaN
   \<and> (0::int) < 20 \<and> plot_h 20 = - 18 \<and> PAD_T + plot_h 20 = 2
   \<and> computeYMax_d [0, 0] = Finite 1
   \<and> point_y_d (plot_h 20) (computeYMax_d [0, 0]) 0 = Finite 20"
proof -
  have a: "computeYMax_d [2 ^ 1023] = PosInfinity"
    by (simp add: computeYMax_d_def Let_def to_double_def overflow_limit_def js_max_def
          signed_infinity_def)
  have b: "point_y_d 100 PosInfinity (2 ^ 1023) = NaN"
    by (simp add: point_y_d_def Let_def to_double_def overflow_limit_def js_max_def js_min_def)
  have c: "computeYMax_d [0, 0] = Finite 1"
    by (simp add: computeYMax_d_def Let_def to_double_def overflow_limit_def js_max_def)
  have h: "plot_h 20 = - 18" by (simp add: plot_h_def PAD_T_def PAD_B_def)
  have d: "point_y_d (- 18) (Finite 1) 0 = Finite 20"
    by (simp add: point_y_d_def Let_def to_double_def overflow_limit_def js_max_def js_min_def
          PAD_T_def js_round_def)
  show ?thesis unfolding a b c h d by (simp add: PAD_T_def)
qed

subsection \<open>The alarm line\<close>


lemma no_dash_parts:
  "SetLineDash ds \<notin> set (area_ops ph points)"
  "SetLineDash ds \<notin> set (line_ops points)"
  "SetLineDash ds \<notin> set (dot_ops lx ly)"
  "SetLineDash ds \<notin> set (value_label_ops h pw lx ly r)"
  by (auto simp: area_ops_def line_ops_def dot_ops_def value_label_ops_def Let_def
       split: list.splits)

lemma last_entry_nonempty: "xs \<noteq> [] \<Longrightarrow> last_entry xs = Inr (last xs)"
  by (cases xs) (simp_all add: last_entry_def)

lemma data_ops_no_throw:
  assumes "hist \<noteq> []"
  shows "\<exists>ops. data_ops h pw ph yMax hist = Inr ops \<and> (\<forall>ds. SetLineDash ds \<notin> set ops)"
proof -
  have pts: "chart_points pw ph yMax hist \<noteq> []"
    using assms by (simp add: chart_points_def)
  obtain lx ly where l: "last (chart_points pw ph yMax hist) = (lx, ly)"
    by (cases "last (chart_points pw ph yMax hist)")
  obtain m r where r: "last hist = (m, r)"
    by (cases "last hist")
  show ?thesis
    by (simp add: data_ops_def Let_def last_entry_nonempty [OF pts] last_entry_nonempty [OF assms]
          l r no_dash_parts)
qed

lemma renderChart_draws:
  assumes "has_ctx w" "chartW w \<noteq> 0" "chartH w \<noteq> 0"
  shows "\<exists>rest. renderChart h d w =
           Inr (w\<lparr>canvas := canvas w
                  @ [ClearRect 0 0 (of_int (chartW w)) (of_int (chartH w))]
                  @ title_ops h @ grid_ops (plot_w (chartW w)) (plot_h (chartH w))
                  @ label_ops h (chartH w) (plot_w (chartW w)) (plot_h (chartH w))
                  @ alarm_ops (plot_w (chartW w)) (plot_h (chartH w)) (computeYMax (map snd (history d)))
                  @ now_ops h (plot_w (chartW w)) (plot_h (chartH w)) @ rest\<rparr>)
         \<and> (\<forall>ds. SetLineDash ds \<notin> set rest)"
proof (cases "length (history d) < 2")
  case True
  then show ?thesis
    using assms by (intro exI [of _ "[]"]) (simp add: renderChart_def Let_def)
next
  case False
  then have "history d \<noteq> []" by auto
  from data_ops_no_throw [OF this]
  obtain ops where ops: "data_ops h (plot_w (chartW w)) (plot_h (chartH w))
      (computeYMax (map snd (history d))) (history d) = Inr ops"
    and nd: "\<forall>ds. SetLineDash ds \<notin> set ops"
    by blast
  show ?thesis
    using assms False nd by (intro exI [of _ ops]) (simp add: renderChart_def Let_def ops)
qed



text \<open>The test \<^verbatim>\<open>thresh <= yMax\<close> never fails: the scale is at least 1.\<close>

lemma alarm_line_always: "thresh \<le> computeYMax values"
  using computeYMax_ge_one [of "values"] by (simp add: thresh_def)

subsection \<open>Writes to the page\<close>

lemma byId_on_elem:
  "byId (on_elem i f d) j = (if j = i then map_option f (byId d i) else byId d j)"
  by (simp add: on_elem_def split: option.splits)

lemma rest_on_elem:
  "tile_value (on_elem i f d) = tile_value d" "signal_bars (on_elem i f d) = signal_bars d"
  by (simp_all add: on_elem_def split: option.splits)

lemma byId_setText:
  "byId (setText i v d) j = (if j = i then map_option (\<lambda>el. el\<lparr>textContent := v\<rparr>) (byId d i) else byId d j)"
  by (simp add: setText_def byId_on_elem)

lemma rest_setText:
  "tile_value (setText i v d) = tile_value d" "signal_bars (setText i v d) = signal_bars d"
  by (simp_all add: setText_def rest_on_elem)

lemma byId_tile_colour: "byId (final (tile_colour c d)) = byId d"
  by (simp add: tile_colour_def final_def split: option.splits)

lemma byId_updateYAxis:
  "byId (updateYAxis hist d) j = (if j = ''chart-yaxis'' then
      map_option (\<lambda>el. el\<lparr>innerHTML :=
                concat (map (\<lambda>i. ''<span>'' @ toFixed 2 (computeYMax (map snd hist) * of_int i / 4) @ ''</span>'')
                          [4, 3, 2, 1, 0 :: int])\<rparr>) (byId d j) else byId d j)"
  by (simp add: updateYAxis_def Let_def byId_on_elem)

lemma byId_value_tiles:
  "j \<notin> {''val-rms'', ''val-peak'', ''val-temp'', ''val-hum''} \<Longrightarrow> byId (value_tiles d doc) j = byId doc j"
  by (simp add: value_tiles_def byId_setText)

lemma tile_value_value_tiles: "tile_value (value_tiles d doc) = tile_value doc"
  by (simp add: value_tiles_def rest_setText)

lemma byId_connection_tiles:
  "j \<notin> {''conn-dot'', ''conn-label''} \<Longrightarrow> byId (connection_tiles d doc) j = byId doc j"
  by (simp add: connection_tiles_def byId_on_elem)

lemma byId_signal_tiles:
  "j \<noteq> ''rssi-val'' \<Longrightarrow> byId (signal_tiles h d doc) j = byId doc j"
  by (simp add: signal_tiles_def Let_def byId_setText)

lemma byId_battery_tiles:
  "j \<notin> {''bat-fill'', ''bat-pct''} \<Longrightarrow> byId (battery_tiles h d doc) j = byId doc j"
  by (simp add: battery_tiles_def Let_def byId_on_elem)

lemma byId_after_alarm:
  assumes "j \<notin> {''conn-dot'', ''conn-label'', ''rssi-val'', ''bat-fill'', ''bat-pct'', ''chart-yaxis''}"
  shows "byId (updateYAxis hist (battery_tiles h d (signal_tiles h d (connection_tiles d doc)))) j
         = byId doc j"
  using assms
  by (simp add: byId_updateYAxis byId_battery_tiles byId_signal_tiles byId_connection_tiles)

lemma final_and_then_total:
  "final (and_then r (\<lambda>s. Inr (k s))) = (if raised r then final r else k (final r))"
  by (simp add: final_def and_then_def raised_def split: sum.splits prod.splits)

lemma raised_and_then_total: "raised (and_then r (\<lambda>s. Inr (k s))) = raised r"
  by (simp add: and_then_def raised_def split: sum.splits)

lemma byId_alarm_tiles:
  "byId (final (alarm_tiles d doc)) j =
     (if j = ''clock'' then map_option (if alarm d then class_add ''hidden'' else class_remove ''hidden'') (byId doc j)
      else if j = ''alarm-badge'' then map_option (if alarm d then class_remove ''hidden'' else class_add ''hidden'') (byId doc j)
      else byId doc j)"
  by (simp add: alarm_tiles_def byId_tile_colour byId_on_elem)

lemma raised_alarm_tiles:
  "raised (alarm_tiles d doc) \<longleftrightarrow> byId doc ''tile-rms'' = None \<or> tile_value doc = None"
  by (simp add: alarm_tiles_def raised_def tile_colour_def byId_on_elem rest_on_elem
        split: option.splits)

lemma raised_updateTiles:
  "raised (updateTiles h d doc) \<longleftrightarrow> byId doc ''tile-rms'' = None \<or> tile_value doc = None"
  by (simp add: updateTiles_def raised_and_then_total raised_alarm_tiles
        byId_value_tiles tile_value_value_tiles)

lemma updateTiles_badge_clock:
  "byId (final (updateTiles h d doc)) ''alarm-badge'' =
     map_option (if alarm d then class_remove ''hidden'' else class_add ''hidden'') (byId doc ''alarm-badge'')"
  "byId (final (updateTiles h d doc)) ''clock'' =
     map_option (if alarm d then class_add ''hidden'' else class_remove ''hidden'') (byId doc ''clock'')"
  by (simp_all add: updateTiles_def final_and_then_total byId_after_alarm byId_alarm_tiles byId_value_tiles)

lemma hidden_class:
  "''hidden'' \<in> set (classList (class_add ''hidden'' el))"
  "''hidden'' \<notin> set (classList (class_remove ''hidden'' el))"
  by (simp_all add: class_add_def class_remove_def)

subsection \<open>A sensor update\<close>

text \<open>
  On an empty history the data section would throw at its first read of a last point;
  \<^verbatim>\<open>renderChart\<close> reaches the section with two entries or more.
\<close>

lemma data_ops_empty_throws:
  "data_ops h pw ph yMax [] = Inl (TypeError, area_ops ph [])"
  by (simp add: data_ops_def chart_points_def last_entry_def)

lemma renderChart_total: "\<exists>w'. renderChart h d w = Inr w' \<and> page w' = page w"
proof (cases "\<not> has_ctx w \<or> chartW w = 0 \<or> chartH w = 0")
  case True
  then show ?thesis by (auto simp: renderChart_def)
next
  case False
  then have "has_ctx w" "chartW w \<noteq> 0" "chartH w \<noteq> 0" by auto
  from renderChart_draws [OF this, of h d] show ?thesis by auto
qed

lemma final_try_page: "page (final (try_page f w)) = final (f (page w))"
  by (simp add: try_page_def final_def split: sum.splits prod.splits)

lemma raised_try_page: "raised (try_page f w) = raised (f (page w))"
  by (simp add: try_page_def raised_def split: sum.splits prod.splits)

lemma page_on_sensor_update:
  "page (final (on_sensor_update h msg w)) = final (updateTiles h (mdata msg) (page w))"
proof -
  let ?r = "try_page (updateTiles h (mdata msg)) (w\<lparr>sensorData := Some (mdata msg)\<rparr>)"
  have p: "page (final ?r) = final (updateTiles h (mdata msg) (page w))"
    by (simp add: final_try_page)
  show ?thesis
  proof (cases ?r)
    case (Inl e)
    then show ?thesis using p by (simp add: on_sensor_update_def and_then_def)
  next
    case (Inr w1)
    obtain w2 where "renderChart h (mdata msg) w1 = Inr w2" "page w2 = page w1"
      using renderChart_total by blast
    then show ?thesis using p Inr by (simp add: on_sensor_update_def and_then_def final_def)
  qed
qed

lemma raised_on_sensor_update:
  "raised (on_sensor_update h msg w)
     \<longleftrightarrow> byId (page w) ''tile-rms'' = None \<or> tile_value (page w) = None"
proof -
  let ?r = "try_page (updateTiles h (mdata msg)) (w\<lparr>sensorData := Some (mdata msg)\<rparr>)"
  have r: "raised ?r \<longleftrightarrow> byId (page w) ''tile-rms'' = None \<or> tile_value (page w) = None"
    by (simp add: raised_try_page raised_updateTiles)
  show ?thesis
  proof (cases ?r)
    case (Inl e)
    then show ?thesis using r by (simp add: on_sensor_update_def and_then_def raised_def)
  next
    case (Inr w1)
    obtain w2 where "renderChart h (mdata msg) w1 = Inr w2"
      using renderChart_total by blast
    then show ?thesis using r Inr by (simp add: on_sensor_update_def and_then_def raised_def)
  qed
qed

text \<open>
  C2. On a page that has the element \<^verbatim>\<open>#tile-rms\<close> with a \<^verbatim>\<open>.tile-value\<close> inside (the
  two lookups of \<^verbatim>\<open>updateTiles\<close> that are not null-checked), the handler of
  \<^verbatim>\<open>sensor_update\<close>, \<^verbatim>\<open>updateTiles\<close> followed by \<^verbatim>\<open>renderChart\<close>, completes without an
  error for every update of the schema, whatever the history holds; and \<^verbatim>\<open>renderChart\<close>
  alone never throws: each read of the last history entry or the last point comes
  after the return on \<^verbatim>\<open>history.length < 2\<close>.
\<close>

theorem sensor_update_completes:
  assumes "byId (page w) ''tile-rms'' \<noteq> None" and "tile_value (page w) \<noteq> None"
  shows "(\<exists>w'. on_sensor_update h msg w = Inr w') \<and> (\<exists>w'. renderChart h d w0 = Inr w')"
proof -
  have "\<not> raised (on_sensor_update h msg w)"
    using assms by (simp add: raised_on_sensor_update)
  then have "\<exists>w'. on_sensor_update h msg w = Inr w'"
    by (cases "on_sensor_update h msg w") (simp_all add: raised_def)
  then show ?thesis using renderChart_total [of h d w0] by blast
qed

theorem sensor_update_completes_witness:
  "byId (page sample_world) ''tile-rms'' \<noteq> None \<and> tile_value (page sample_world) \<noteq> None
   \<and> (\<exists>w'. on_sensor_update sample_host sample_update sample_world = Inr w')"
proof -
  have h: "byId (page sample_world) ''tile-rms'' \<noteq> None" "tile_value (page sample_world) \<noteq> None"
    by (simp_all add: sample_world_def sample_page_def)
  from sensor_update_completes [OF h, of sample_host sample_update] h show ?thesis
    by blast
qed

text \<open>The handler throws exactly on a page without that tile.\<close>

lemma sensor_update_throws_iff:
  "(\<exists>e w'. on_sensor_update h msg w = Inl (e, w'))
     \<longleftrightarrow> byId (page w) ''tile-rms'' = None \<or> tile_value (page w) = None"
proof -
  have "(\<exists>e w'. on_sensor_update h msg w = Inl (e, w')) \<longleftrightarrow> raised (on_sensor_update h msg w)"
    by (cases "on_sensor_update h msg w") (auto simp: raised_def)
  then show ?thesis by (simp add: raised_on_sensor_update)
qed

text \<open>
  C3. On a page with the alarm badge and the clock, after a sensor update has been
  handled the badge is visible (does not carry the class \<^verbatim>\<open>hidden\<close>) if and only if the
  update's alarm flag is true, and the clock is hidden exactly when the badge is
  visible.
\<close>

theorem alarm_badge_and_clock:
  assumes "byId (page w) ''alarm-badge'' = Some b0" and "byId (page w) ''clock'' = Some c0"
  shows "\<exists>b c. byId (page (final (on_sensor_update h msg w))) ''alarm-badge'' = Some b
           \<and> byId (page (final (on_sensor_update h msg w))) ''clock'' = Some c
           \<and> (''hidden'' \<notin> set (classList b) \<longleftrightarrow> alarm (mdata msg))
           \<and> (''hidden'' \<in> set (classList c) \<longleftrightarrow> ''hidden'' \<notin> set (classList b))"
  using assms
  by (simp add: page_on_sensor_update updateTiles_badge_clock hidden_class)

theorem alarm_badge_and_clock_witness:
  "byId (page sample_world) ''alarm-badge'' = Some (class_add ''hidden'' sample_element)
   \<and> byId (page sample_world) ''clock'' = Some sample_element
   \<and> alarm (mdata sample_update)
   \<and> (\<exists>b c. byId (page (final (on_sensor_update sample_host sample_update sample_world))) ''alarm-badge'' = Some b
           \<and> byId (page (final (on_sensor_update sample_host sample_update sample_world))) ''clock'' = Some c
           \<and> ''hidden'' \<notin> set (classList b) \<and> ''hidden'' \<in> set (classList c))"
proof -
  have h: "byId (page sample_world) ''alarm-badge'' = Some (class_add ''hidden'' sample_element)"
    "byId (page sample_world) ''clock'' = Some sample_element"
    by (simp_all add: sample_world_def sample_page_def)
  have a: "alarm (mdata sample_update)"
    by (simp add: sample_update_def sample_data_def)
  from alarm_badge_and_clock [OF h, of sample_host sample_update] h a show ?thesis
    by blast
qed

text \<open>The clock's tick writes the time into the clock and leaves every class list alone.\<close>

lemma clockTick_keeps_classes:
  "map_option classList (byId (page (clockTick h w)) i) = map_option classList (byId (page w) i)"
  by (simp add: clockTick_def on_page_def byId_on_elem option.map_comp comp_def)

lemma updateTiles_label:
  assumes "byId doc ''tile-rms'' \<noteq> None" and "tile_value doc \<noteq> None"
  shows "byId (final (updateTiles h d doc)) ''conn-label'' =
     map_option (\<lambda>el. set_style ''color'' (if connected d then ''var(--green)'' else ''var(--red)'')
                   (el\<lparr>textContent := (if connected d then ''Connected'' else ''No Signal'')\<rparr>))
       (byId doc ''conn-label'')"
proof -
  have nr: "\<not> raised (alarm_tiles d (value_tiles d doc))"
    using assms by (simp add: raised_alarm_tiles byId_value_tiles tile_value_value_tiles)
  show ?thesis
    using nr
    by (simp add: updateTiles_def final_and_then_total byId_updateYAxis byId_battery_tiles
          byId_signal_tiles connection_tiles_def byId_on_elem byId_alarm_tiles byId_value_tiles
          option.map_comp comp_def)
qed

text \<open>
  C5. On a page with the tile and the connection label, after a sensor update has
  been handled the label reads \<^verbatim>\<open>Connected\<close> when the update's \<^verbatim>\<open>connected\<close> field is
  true and \<^verbatim>\<open>No Signal\<close> when it is false: a disconnected sensor shows that text and no
  other.
\<close>

theorem connection_label:
  assumes "byId (page w) ''tile-rms'' \<noteq> None" and "tile_value (page w) \<noteq> None"
    and "byId (page w) ''conn-label'' = Some l0"
  shows "\<exists>l. byId (page (final (on_sensor_update h msg w))) ''conn-label'' = Some l
           \<and> textContent l = (if connected (mdata msg) then ''Connected'' else ''No Signal'')"
  using assms
  by (simp add: page_on_sensor_update updateTiles_label set_style_def)

theorem connection_label_witness:
  "byId (page sample_world) ''tile-rms'' \<noteq> None \<and> tile_value (page sample_world) \<noteq> None
   \<and> byId (page sample_world) ''conn-label'' = Some sample_element
   \<and> \<not> connected (mdata sample_update)
   \<and> (\<exists>l. byId (page (final (on_sensor_update sample_host sample_update sample_world))) ''conn-label'' = Some l
           \<and> textContent l = ''No Signal'')"
proof -
  have h: "byId (page sample_world) ''tile-rms'' \<noteq> None" "tile_value (page sample_world) \<noteq> None"
    "byId (page sample_world) ''conn-label'' = Some sample_element"
    by (simp_all add: sample_world_def sample_page_def)
  have c: "\<not> connected (mdata sample_update)"
    by (simp add: sample_update_def sample_data_def)
  from connection_label [OF h, of sample_host sample_update] h c show ?thesis
    by auto
qed

subsection \<open>The view toggle and the socket\<close>

lemma showMain_final:
  "final (showMain w) = w\<lparr>currentView := MainView,
       page := switch_active ''view-main'' ''view-setup'' (page w)\<rparr>"
  by (simp add: showMain_def and_then_def try_page_def must_elem_def final_def switch_active_def
        on_elem_def split: option.splits)

lemma showSetup_final:
  "final (showSetup w) = w\<lparr>currentView := SetupView,
       page := switch_active ''view-setup'' ''view-main'' (page w),
       outbox := outbox w @ (if ws w = Some OPEN \<and> byId (page w) ''view-setup'' \<noteq> None
                                \<and> byId (page w) ''view-main'' \<noteq> None
                             then [Get_status] else [])\<rparr>"
  by (auto simp: showSetup_def and_then_def try_page_def must_elem_def final_def switch_active_def
        on_elem_def send_def split: option.splits)

lemma show_raised:
  "raised (showMain w) \<longleftrightarrow> byId (page w) ''view-main'' = None \<or> byId (page w) ''view-setup'' = None"
  "raised (showSetup w) \<longleftrightarrow> byId (page w) ''view-main'' = None \<or> byId (page w) ''view-setup'' = None"
  by (auto simp: showMain_def showSetup_def and_then_def try_page_def must_elem_def raised_def
        split: option.splits)

lemma switch_active_classes:
  assumes "byId d shown = Some a" "byId d other = Some b" "shown \<noteq> other"
  shows "byId (switch_active shown other d) shown = Some (class_add ''active'' a)"
    and "byId (switch_active shown other d) other = Some (class_remove ''active'' b)"
    and "j \<noteq> shown \<Longrightarrow> j \<noteq> other \<Longrightarrow> byId (switch_active shown other d) j = byId d j"
  using assms by (simp_all add: switch_active_def byId_on_elem)

lemma active_class:
  "''active'' \<in> set (classList (class_add ''active'' el))"
  "''active'' \<notin> set (classList (class_remove ''active'' el))"
  by (simp_all add: class_add_def class_remove_def)

text \<open>
  C1, as amended. A \<^verbatim>\<open>toggle_view\<close> message runs no listener and only switches the view:
  the current view flips between main and setup, the class \<^verbatim>\<open>active\<close> goes to the
  element of the view shown and leaves the other one, and nothing else of the state
  changes--with one exception. On the way from main to setup one message is sent, the
  status query \<^verbatim>\<open>{cmd: 'get_status'}\<close>, when the socket is open and both view elements
  are on the page; on the way from setup to main, or otherwise, nothing is sent. The
  handling throws exactly on a page that lacks one of the two view elements.
\<close>

theorem toggle_view_effect:
  assumes "mtype msg = ''toggle_view''"
  shows "final (dispatch ls msg w)
           = (if currentView w = MainView
              then w\<lparr>currentView := SetupView,
                     page := switch_active ''view-setup'' ''view-main'' (page w),
                     outbox := outbox w @ (if ws w = Some OPEN
                                              \<and> byId (page w) ''view-setup'' \<noteq> None
                                              \<and> byId (page w) ''view-main'' \<noteq> None
                                           then [Get_status] else [])\<rparr>
              else w\<lparr>currentView := MainView,
                     page := switch_active ''view-main'' ''view-setup'' (page w)\<rparr>)
         \<and> (raised (dispatch ls msg w)
              \<longleftrightarrow> byId (page w) ''view-main'' = None \<or> byId (page w) ''view-setup'' = None)
         \<and> dispatch ls msg w = dispatch ls' msg w
         \<and> (\<forall>a b. byId (page w) ''view-main'' = Some a \<and> byId (page w) ''view-setup'' = Some b \<longrightarrow>
               (\<exists>a' b'. byId (page (final (dispatch ls msg w))) ''view-main'' = Some a'
                  \<and> byId (page (final (dispatch ls msg w))) ''view-setup'' = Some b'
                  \<and> (''active'' \<in> set (classList b') \<longleftrightarrow> currentView w = MainView)
                  \<and> (''active'' \<in> set (classList a') \<longleftrightarrow> currentView w \<noteq> MainView)))"
proof -
  have d: "dispatch ls msg w = (if currentView w = MainView then showSetup w else showMain w)"
    for ls :: "string \<Rightarrow> ('a message \<Rightarrow> world \<Rightarrow> world outcome) list"
    using assms by (simp add: dispatch_def)
  have 1: "final (dispatch ls msg w)
           = (if currentView w = MainView
              then w\<lparr>currentView := SetupView,
                     page := switch_active ''view-setup'' ''view-main'' (page w),
                     outbox := outbox w @ (if ws w = Some OPEN
                                              \<and> byId (page w) ''view-setup'' \<noteq> None
                                              \<and> byId (page w) ''view-main'' \<noteq> None
                                           then [Get_status] else [])\<rparr>
              else w\<lparr>currentView := MainView,
                     page := switch_active ''view-main'' ''view-setup'' (page w)\<rparr>)"
    by (simp add: d showMain_final showSetup_final)
  have 2: "raised (dispatch ls msg w)
              \<longleftrightarrow> byId (page w) ''view-main'' = None \<or> byId (page w) ''view-setup'' = None"
    by (simp add: d show_raised)
  have 3: "dispatch ls msg w = dispatch ls' msg w"
    by (simp add: d)
  have 4: "\<exists>a' b'. byId (page (final (dispatch ls msg w))) ''view-main'' = Some a'
                  \<and> byId (page (final (dispatch ls msg w))) ''view-setup'' = Some b'
                  \<and> (''active'' \<in> set (classList b') \<longleftrightarrow> currentView w = MainView)
                  \<and> (''active'' \<in> set (classList a') \<longleftrightarrow> currentView w \<noteq> MainView)"
    if "byId (page w) ''view-main'' = Some a" "byId (page w) ''view-setup'' = Some b" for a b
    using that by (simp add: 1 switch_active_classes active_class)
  from 1 2 3 4 show ?thesis by blast
qed

theorem toggle_view_effect_witness:
  "mtype toggle_msg = ''toggle_view''
   \<and> final (dispatch no_listeners toggle_msg (sample_world\<lparr>currentView := SetupView\<rparr>))
       = sample_world\<lparr>page := switch_active ''view-main'' ''view-setup'' (page sample_world)\<rparr>
   \<and> currentView (final (dispatch no_listeners toggle_msg (sample_world\<lparr>currentView := SetupView\<rparr>)))
       = MainView
   \<and> outbox (final (dispatch no_listeners toggle_msg (sample_world\<lparr>currentView := SetupView\<rparr>)))
       = outbox sample_world
   \<and> \<not> raised (dispatch no_listeners toggle_msg (sample_world\<lparr>currentView := SetupView\<rparr>))"
proof -
  have h: "mtype toggle_msg = ''toggle_view''" by (simp add: toggle_msg_def)
  have c: "currentView sample_world = MainView" by (simp add: sample_world_def)
  have e: "byId (page sample_world) ''view-main'' \<noteq> None" "byId (page sample_world) ''view-setup'' \<noteq> None"
    by (simp_all add: sample_world_def sample_page_def)
  have r: "sample_world\<lparr>currentView := SetupView, currentView := MainView\<rparr> = sample_world"
    using c by (cases sample_world) simp
  from toggle_view_effect [OF h, of no_listeners "sample_world\<lparr>currentView := SetupView\<rparr>"]
  have f: "final (dispatch no_listeners toggle_msg (sample_world\<lparr>currentView := SetupView\<rparr>))
       = sample_world\<lparr>page := switch_active ''view-main'' ''view-setup'' (page sample_world)\<rparr>"
    and nr: "\<not> raised (dispatch no_listeners toggle_msg (sample_world\<lparr>currentView := SetupView\<rparr>))"
    using e r by simp_all
  show ?thesis using h c nr by (simp add: f)
qed

text \<open>
  Without the exception, C1 does not hold: on the way into setup \<^verbatim>\<open>showSetup\<close> asks
  the gateway for a fresh status.
\<close>

theorem toggle_view_sends_get_status:
  "mtype toggle_msg = ''toggle_view'' \<and> currentView sample_world = MainView
   \<and> ws sample_world = Some OPEN \<and> outbox sample_world = []
   \<and> outbox (final (dispatch no_listeners toggle_msg sample_world)) = [Get_status]"
  by (simp add: toggle_msg_def sample_world_def sample_page_def dispatch_def showSetup_def
        and_then_def try_page_def must_elem_def final_def send_def)

text \<open>
  C8. While the socket is \<^verbatim>\<open>null\<close> or not open, \<^verbatim>\<open>send\<close> changes nothing and cannot
  throw: the command is kept nowhere, and a later reconnection (\<^verbatim>\<open>connect\<close>, then the
  socket's \<^verbatim>\<open>open\<close> event) transmits nothing.
\<close>

theorem send_while_down:
  assumes "ws w \<noteq> Some OPEN"
  shows "send obj w = w \<and> outbox (onopen h (connect (send obj w))) = outbox w"
  using assms by (simp add: send_def onopen_def connect_def clockTick_def on_page_def)

theorem send_while_down_witness:
  "ws (sample_world\<lparr>ws := Some CLOSED\<rparr>) \<noteq> Some OPEN
   \<and> send Wifi_scan (sample_world\<lparr>ws := Some CLOSED\<rparr>) = sample_world\<lparr>ws := Some CLOSED\<rparr>
   \<and> outbox (onopen sample_host (connect (send Wifi_scan (sample_world\<lparr>ws := Some CLOSED\<rparr>)))) = []"
proof -
  have h: "ws (sample_world\<lparr>ws := Some CLOSED\<rparr>) \<noteq> Some OPEN" by simp
  have o: "outbox (sample_world\<lparr>ws := Some CLOSED\<rparr>) = []" by (simp add: sample_world_def)
  from send_while_down [OF h, of Wifi_scan sample_host]
  have s1: "send Wifi_scan (sample_world\<lparr>ws := Some CLOSED\<rparr>) = sample_world\<lparr>ws := Some CLOSED\<rparr>"
    and s2: "outbox (onopen sample_host (connect (send Wifi_scan (sample_world\<lparr>ws := Some CLOSED\<rparr>))))
               = outbox (sample_world\<lparr>ws := Some CLOSED\<rparr>)"
    by blast+
  have "outbox (onopen sample_host (connect (send Wifi_scan (sample_world\<lparr>ws := Some CLOSED\<rparr>)))) = []"
    using s2 o by simp
  with h s1 show ?thesis by blast
qed

subsection \<open>The masked keyboard display\<close>

lemma updateKbdDisplay_text:
  "byId (page (updateKbdDisplay w)) ''kbd-input-display'' =
     map_option (\<lambda>el. el\<lparr>textContent := replicate (length (kbdText w)) CHR ''*''\<rparr>)
       (byId (page w) ''kbd-input-display'')"
  by (simp add: updateKbdDisplay_def on_page_def byId_on_elem)

lemma alike_updateKbdDisplay:
  "alike w1 w2 \<Longrightarrow> alike (updateKbdDisplay w1) (updateKbdDisplay w2)"
  by (cases w1; cases w2) (simp add: alike_def updateKbdDisplay_def on_page_def)

lemma alike_kbdPress:
  assumes "alike w1 w2"
  shows "alike (final (kbdPress key w1)) (final (kbdPress key w2))
         \<and> raised (kbdPress key w1) = raised (kbdPress key w2)"
  using assms
  apply (cases w1; cases w2)
  apply (simp add: alike_def kbdPress_def updateKbdDisplay_def on_page_def buildKeyboard_def
      try_page_def must_elem_def final_def raised_def and_then_def setWifiStatus_def send_def Let_def
      split: option.splits)
  done

lemma alike_page: "alike w1 w2 \<Longrightarrow> page w1 = page w2"
  by (cases w1; cases w2) (simp add: alike_def)

lemma alike_texts: "length s = length t \<Longrightarrow> alike (w\<lparr>kbdText := s\<rparr>) (w\<lparr>kbdText := t\<rparr>)"
  by (simp add: alike_def)

lemma kbdPress_text_key:
  assumes "text_key k"
  shows "kbdPress k w =
     and_then (if kbdMode w = Upper then buildKeyboard (w\<lparr>kbdText := kbdText w @ k, kbdMode := Lower\<rparr>)
               else Inr (w\<lparr>kbdText := kbdText w @ k\<rparr>))
       (\<lambda>w2. Inr (updateKbdDisplay w2))"
  using assms by (simp add: kbdPress_def text_key_def Let_def)

lemma alike_text_keys:
  assumes "alike w1 w2" "text_key k1" "text_key k2" "length k1 = length k2"
  shows "alike (final (kbdPress k1 w1)) (final (kbdPress k2 w2))"
  using assms(1,4)
  unfolding kbdPress_text_key [OF assms(2)] kbdPress_text_key [OF assms(3)]
  by (cases w1; cases w2)
     (simp add: alike_def updateKbdDisplay_def on_page_def buildKeyboard_def
        try_page_def must_elem_def final_def and_then_def split: option.splits)

lemma alike_same_shape:
  assumes "alike w1 w2" "same_shape k1 k2"
  shows "alike (final (kbdPress k1 w1)) (final (kbdPress k2 w2))"
proof (cases "text_key k1")
  case True
  with assms(2) have "text_key k2" "length k1 = length k2"
    by (simp_all add: same_shape_def)
  from alike_text_keys [OF assms(1) True this] show ?thesis .
next
  case False
  with assms(2) have "k1 = k2" by (simp add: same_shape_def)
  with alike_kbdPress [OF assms(1), of k1] show ?thesis by simp
qed

lemma alike_presses_shape:
  "list_all2 same_shape ks1 ks2 \<Longrightarrow> alike w1 w2 \<Longrightarrow> alike (presses ks1 w1) (presses ks2 w2)"
proof (induction ks1 ks2 arbitrary: w1 w2 rule: list_all2_induct)
  case Nil
  then show ?case by simp
next
  case (Cons k1 ks1 k2 ks2)
  from Cons.IH [OF alike_same_shape [OF Cons.prems Cons.hyps(1)]] show ?case by simp
qed

lemma display_masked_on_elem:
  "i \<noteq> ''kbd-input-display'' \<Longrightarrow> display_masked (on_elem i f d) = display_masked d"
  by (simp add: display_masked_def byId_on_elem)

lemma display_masked_updateKbdDisplay: "display_masked (page (updateKbdDisplay w))"
  by (simp add: display_masked_def updateKbdDisplay_text list_all_length split: option.splits)

lemma display_masked_upd [simp]:
  "display_masked (page (w\<lparr>kbdText := s\<rparr>)) = display_masked (page w)"
  "display_masked (page (w\<lparr>kbdMode := m\<rparr>)) = display_masked (page w)"
  "display_masked (page (w\<lparr>outbox := ob\<rparr>)) = display_masked (page w)"
  by simp_all

lemma final_must_elem: "final (must_elem i f d) = on_elem i f d"
  by (simp add: must_elem_def on_elem_def final_def split: option.splits)

lemma display_masked_buildKeyboard:
  "display_masked (page (final (buildKeyboard w))) = display_masked (page w)"
  by (simp add: buildKeyboard_def final_try_page final_must_elem display_masked_on_elem)

lemma display_masked_ok_key:
  assumes "display_masked (page w)"
  shows "display_masked (page (final (
           and_then (try_page (must_elem ''keyboard-overlay'' (class_add ''hidden'')) w)
             (\<lambda>w1. Inr (setWifiStatus (m w1) c (send (obj w1) w1))))))"
proof (cases "byId (page w) ''keyboard-overlay''")
  case None
  then show ?thesis
    using assms by (simp add: and_then_def try_page_def must_elem_def final_def)
next
  case (Some el)
  then show ?thesis
    using assms
    by (simp add: and_then_def try_page_def must_elem_def final_def setWifiStatus_def send_def
          on_page_def display_masked_def byId_on_elem)
qed

lemma display_masked_kbdPress:
  assumes "display_masked (page w)"
  shows "display_masked (page (final (kbdPress k w)))"
proof -
  have ok: "display_masked (page (final (and_then r (\<lambda>w2. Inr (updateKbdDisplay w2)))))"
    if "display_masked (page (final r))" for r
    using that by (cases r) (auto simp: and_then_def final_def display_masked_updateKbdDisplay)
  have fin: "final (Inr x) = x" for x :: world by (simp add: final_def)
  show ?thesis
    using assms
    by (simp add: kbdPress_def Let_def display_masked_updateKbdDisplay display_masked_buildKeyboard
          ok fin display_masked_ok_key)
qed

lemma display_masked_presses:
  "display_masked (page w) \<Longrightarrow> display_masked (page (presses ks w))"
  by (induction ks arbitrary: w) (simp_all add: display_masked_kbdPress)

text \<open>
  A key that changes the typed text, when its handling does not throw, leaves the
  display with as many asterisks as the new text has characters.
\<close>

lemma kbdPress_display_length:
  assumes "text_key k \<or> k = ''DEL'' \<or> k = ''SPACE''" and "\<not> raised (kbdPress k w)"
    and "byId (page (final (kbdPress k w))) ''kbd-input-display'' = Some el"
  shows "textContent el = replicate (length (kbdText (final (kbdPress k w)))) CHR ''*''"
    and "kbdText (final (kbdPress k w))
           = (if k = ''DEL'' then butlast (kbdText w)
              else if k = ''SPACE'' then kbdText w @ '' '' else kbdText w @ k)"
proof -
  have u: "kbdText (updateKbdDisplay x) = kbdText x" for x
    by (simp add: updateKbdDisplay_def on_page_def)
  have shape: "\<exists>x. final (kbdPress k w) = updateKbdDisplay x
      \<and> kbdText x = (if k = ''DEL'' then butlast (kbdText w)
              else if k = ''SPACE'' then kbdText w @ '' '' else kbdText w @ k)"
    using assms(1,2)
    by (auto simp: kbdPress_def text_key_def Let_def final_def raised_def and_then_def
          buildKeyboard_def try_page_def must_elem_def split: option.splits if_splits)
  then obtain x where x: "final (kbdPress k w) = updateKbdDisplay x"
    and t: "kbdText x = (if k = ''DEL'' then butlast (kbdText w)
              else if k = ''SPACE'' then kbdText w @ '' '' else kbdText w @ k)"
    by blast
  show "kbdText (final (kbdPress k w))
           = (if k = ''DEL'' then butlast (kbdText w)
              else if k = ''SPACE'' then kbdText w @ '' '' else kbdText w @ k)"
    by (simp only: x u t)
  from assms(3) show "textContent el = replicate (length (kbdText (final (kbdPress k w)))) CHR ''*''"
    unfolding x u by (auto simp: updateKbdDisplay_text)
qed

text \<open>\<^verbatim>\<open>wifiSelect\<close> opens the keyboard for a secured network with an empty text.\<close>

lemma wifiSelect_clears_text:
  assumes "idx < length nets" "secured (nets ! idx)"
  shows "kbdText (final (wifiSelect nets idx w)) = []"
  using assms
  by (simp add: wifiSelect_def Let_def and_then_def try_page_def must_elem_def final_def
        buildKeyboard_def updateKbdDisplay_def on_page_def split: option.splits)

text \<open>
  C9. The screen depends on the typed text through its length only. For two texts of
  the same length \<^verbatim>\<open>updateKbdDisplay\<close> leaves the same page, with a row of that many
  asterisks in the display element. Two runs of key presses that differ only in which
  text keys were pressed (the same control keys at the same places, text keys of the
  same length) leave the same page, so that no element of the page tells which
  characters were typed. The display element, once it holds only asterisks, holds only
  asterisks after every run of key presses; and after a key that changes the text it
  holds as many asterisks as the text has characters.
\<close>

theorem kbd_display_masks:
  assumes "length s = length t" and "list_all2 same_shape ks1 ks2"
  shows "page (updateKbdDisplay (w\<lparr>kbdText := s\<rparr>)) = page (updateKbdDisplay (w\<lparr>kbdText := t\<rparr>))
         \<and> (\<forall>el. byId (page (updateKbdDisplay (w\<lparr>kbdText := s\<rparr>))) ''kbd-input-display'' = Some el
                \<longrightarrow> textContent el = replicate (length s) CHR ''*'')
         \<and> page (presses ks1 (w\<lparr>kbdText := s\<rparr>)) = page (presses ks2 (w\<lparr>kbdText := t\<rparr>))
         \<and> (display_masked (page w) \<longrightarrow> display_masked (page (presses ks1 (w\<lparr>kbdText := s\<rparr>))))
         \<and> (\<forall>k el. (text_key k \<or> k = ''DEL'' \<or> k = ''SPACE'') \<and> \<not> raised (kbdPress k w)
                  \<and> byId (page (final (kbdPress k w))) ''kbd-input-display'' = Some el
                \<longrightarrow> textContent el = replicate (length (kbdText (final (kbdPress k w)))) CHR ''*'')"
proof -
  note a = alike_texts [OF assms(1), of w]
  have len: "\<forall>k el. (text_key k \<or> k = ''DEL'' \<or> k = ''SPACE'') \<and> \<not> raised (kbdPress k w)
                  \<and> byId (page (final (kbdPress k w))) ''kbd-input-display'' = Some el
                \<longrightarrow> textContent el = replicate (length (kbdText (final (kbdPress k w)))) CHR ''*''"
    using kbdPress_display_length(1) by blast
  have "\<forall>el. byId (page (updateKbdDisplay (w\<lparr>kbdText := s\<rparr>))) ''kbd-input-display'' = Some el
                \<longrightarrow> textContent el = replicate (length s) CHR ''*''"
    by (auto simp: updateKbdDisplay_text)
  moreover have "display_masked (page w) \<longrightarrow> display_masked (page (presses ks1 (w\<lparr>kbdText := s\<rparr>)))"
    using display_masked_presses [of "w\<lparr>kbdText := s\<rparr>" ks1] by simp
  ultimately show ?thesis
    using alike_page [OF alike_updateKbdDisplay [OF a]]
      alike_page [OF alike_presses_shape [OF assms(2) a]] len
    by blast
qed

theorem kbd_display_masks_witness:
  "length ([] :: string) = length ([] :: string)
   \<and> list_all2 same_shape [''h'', ''u'', ''n''] [''a'', ''b'', ''c'']
   \<and> page (presses [''h'', ''u'', ''n''] (sample_world\<lparr>kbdText := []\<rparr>))
       = page (presses [''a'', ''b'', ''c''] (sample_world\<lparr>kbdText := []\<rparr>))
   \<and> kbdText (presses [''h'', ''u'', ''n''] (sample_world\<lparr>kbdText := []\<rparr>)) = ''hun''
   \<and> byId (page (presses [''h'', ''u'', ''n''] (sample_world\<lparr>kbdText := []\<rparr>))) ''kbd-input-display''
       = Some (sample_element\<lparr>textContent := ''***''\<rparr>)"
proof -
  have h: "length ([] :: string) = length ([] :: string)" by simp
  have k: "list_all2 same_shape [''h'', ''u'', ''n''] [''a'', ''b'', ''c'']"
    by (simp add: same_shape_def text_key_def)
  have p: "presses [''h'', ''u'', ''n''] (sample_world\<lparr>kbdText := []\<rparr>)
       = sample_world\<lparr>kbdText := ''hun'',
            page := on_elem ''kbd-input-display'' (\<lambda>el. el\<lparr>textContent := ''***''\<rparr>) (page sample_world)\<rparr>"
    by (simp add: kbdPress_def sample_world_def and_then_def final_def updateKbdDisplay_def
          on_page_def on_elem_def sample_page_def Let_def)
  have d: "byId (page (presses [''h'', ''u'', ''n''] (sample_world\<lparr>kbdText := []\<rparr>))) ''kbd-input-display''
       = Some (sample_element\<lparr>textContent := ''***''\<rparr>)"
    unfolding p by (simp add: byId_on_elem sample_world_def sample_page_def)
  have t: "kbdText (presses [''h'', ''u'', ''n''] (sample_world\<lparr>kbdText := []\<rparr>)) = ''hun''"
    unfolding p by simp
  from kbd_display_masks [OF h k, of sample_world] h k d t show ?thesis
    by blast
qed

end
